theory Spec2Isabelle
  imports Main "HOL-Library.Word"
begin

section \<open>Values exchanged with the price provider\<close>

text \<open>
  The price provider, the price hook, the marshaller, the ticker, the logger and the
  standard library (\<^verbatim>\<open>net/http\<close>, \<^verbatim>\<open>encoding/json\<close>) are not part of the repository.
  The values they exchange with \<^verbatim>\<open>pkg/agent/agent.go\<close> and \<^verbatim>\<open>pkg/prices/cache.go\<close>
  are modelled as far as the two files read them.
\<close>

text \<open>A \<^verbatim>\<open>float64\<close> is carried around, never computed with: its 64 bits.\<close>

type_synonym float64 = "64 word"

text \<open>\<^verbatim>\<open>provider.Pair\<close>: the two asset symbols.\<close>

record provider_Pair =
  Base :: string
  Quote :: string

text \<open>
  Modelled from the spec: \<^verbatim>\<open>provider.Pair.Empty\<close> is a method of the provider package;
  the spec says that a pair is "empty" if both symbols are unset.
\<close>

definition Pair_Empty :: "provider_Pair \<Rightarrow> bool" where
  "Pair_Empty p = (Base p = [] \<and> Quote p = [])"

text \<open>\<^verbatim>\<open>time.Time\<close>: an instant and the location it is shown in.\<close>

record time_Time =
  instant :: int
  location :: string

definition time_In_UTC :: "time_Time \<Rightarrow> time_Time" where
  "time_In_UTC t = t\<lparr>location := ''UTC''\<rparr>"

text \<open>
  A Go \<^verbatim>\<open>error\<close> value that is not nil. \<^verbatim>\<open>errors.New m\<close> stands for any error whose
  text is \<^verbatim>\<open>m\<close>; \<^verbatim>\<open>http.ErrServerClosed\<close> is the one error the code tells apart. A
  result of type \<^verbatim>\<open>error\<close> is an \<open>error option\<close>, with \<open>None\<close> for nil.
\<close>

datatype error = errors_New string | ErrServerClosed

fun error_Error :: "error \<Rightarrow> string" where
  "error_Error (errors_New m) = m"
| "error_Error ErrServerClosed = ''http: Server closed''"

text \<open>\<^verbatim>\<open>provider.Price\<close>, the tick of one pair, with the ticks it was computed from.\<close>

datatype provider_Price = Price
  (p_Type: string)
  (p_Pair: provider_Pair)
  (p_Price: float64)
  (p_Bid: float64)
  (p_Ask: float64)
  (p_Volume24h: float64)
  (p_Time: time_Time)
  (p_Prices: "provider_Price list")
  (p_Parameters: "string \<rightharpoonup> string")
  (p_Error: string)

text \<open>
  The result of \<^verbatim>\<open>Provider.Prices\<close> is a Go map from pairs to ticks. The handler of
  the multi-pair endpoint ranges over it, in an order the runtime chooses, so the map
  is an association list: its order is the order of that range, \<open>map_of\<close> is the
  lookup. A Go map holds a key once; the ticks in it are taken not to be nil pointers.
\<close>

type_synonym prices_map = "(provider_Pair \<times> provider_Price) list"

section \<open>The HTTP agent: requests and responses\<close>

text \<open>The JSON record of the single-pair endpoint (\<^verbatim>\<open>agent.go\<close>, lines 62 to 74).\<close>

datatype jsonPrice = JsonPrice
  (j_Type: string)
  (j_Base: string)
  (j_Quote: string)
  (j_Price: float64)
  (j_Bid: float64)
  (j_Ask: float64)
  (j_Volume24h: float64)
  (j_Timestamp: time_Time)
  (j_Parameters: "string \<rightharpoonup> string")
  (j_Prices: "jsonPrice list")
  (j_Error: string)

fun jsonPriceFromGoferPrice :: "provider_Price \<Rightarrow> jsonPrice" where
  "jsonPriceFromGoferPrice (Price ty pr price bid ask vol tm prices params err) =
     JsonPrice ty (Base pr) (Quote pr) price bid ask vol (time_In_UTC tm) params
       (map jsonPriceFromGoferPrice prices) err"

text \<open>
  \<^verbatim>\<open>pricesRequest\<close> and \<^verbatim>\<open>priceRequest\<close>. A Go slice can be nil or hold a list; both
  have a length.
\<close>

record pricesRequest =
  req_Pairs :: "provider_Pair list option"

record priceRequest =
  req_Pair :: provider_Pair

fun len :: "'a list option \<Rightarrow> nat" where
  "len None = 0"
| "len (Some xs) = length xs"

fun elems :: "'a list option \<Rightarrow> 'a list" where
  "elems None = []"
| "elems (Some xs) = xs"

text \<open>
  The request as the handlers read it: the header fields and the body.
  \<^verbatim>\<open>Header.Get\<close> gives the empty string for a field that is not there.
\<close>

record Request =
  Header :: "(string \<times> string) list"
  Body :: string

definition Header_Get :: "(string \<times> string) list \<Rightarrow> string \<Rightarrow> string" where
  "Header_Get h k = (case map_of h k of None \<Rightarrow> [] | Some v \<Rightarrow> v)"

text \<open>
  The \<^verbatim>\<open>http.ResponseWriter\<close>: the status line, once written, and the body written so
  far. The first write of a body writes the status 200 when no status was written;
  a second \<^verbatim>\<open>WriteHeader\<close> changes nothing. \<^verbatim>\<open>http.Error\<close> writes the status and then
  the message as one line (\<^verbatim>\<open>fmt.Fprintln\<close>). The header fields of the response are
  left out: no handler reads them.
\<close>

record ResponseWriter =
  status :: "nat option"
  body :: string

definition new_ResponseWriter :: ResponseWriter where
  "new_ResponseWriter = \<lparr>status = None, body = []\<rparr>"

definition StatusOK :: nat where "StatusOK = 200"
definition StatusBadRequest :: nat where "StatusBadRequest = 400"
definition StatusUnsupportedMediaType :: nat where "StatusUnsupportedMediaType = 415"

definition WriteHeader :: "ResponseWriter \<Rightarrow> nat \<Rightarrow> ResponseWriter" where
  "WriteHeader w code = (case status w of None \<Rightarrow> w\<lparr>status := Some code\<rparr> | Some c \<Rightarrow> w)"

definition io_WriteString :: "ResponseWriter \<Rightarrow> string \<Rightarrow> ResponseWriter" where
  "io_WriteString w s = (let w1 = WriteHeader w StatusOK in w1\<lparr>body := body w1 @ s\<rparr>)"

definition http_Error :: "ResponseWriter \<Rightarrow> string \<Rightarrow> nat \<Rightarrow> ResponseWriter" where
  "http_Error w msg code = io_WriteString (WriteHeader w code) (msg @ [CHR 0x0A])"

section \<open>The collaborators and what is observed of them\<close>

text \<open>What the marshaller is given to write: a tick or an error.\<close>

datatype item = Item_Price provider_Price | Item_Error error

datatype level = Debug | Info | Warn | Error

text \<open>A \<^verbatim>\<open>context.Context\<close> that is not nil, by its identity.\<close>

datatype Context = Ctx nat

datatype handler = HandlePrices | HandlePrice

text \<open>
  Every call of a collaborator and every line of the log is an event of the trace,
  in the order of the calls. The calls of \<^verbatim>\<open>Price\<close> and of \<^verbatim>\<open>server.Close\<close> are kept with
  what they returned. A log line keeps its level, its text (the format string
  for \<^verbatim>\<open>Infof\<close> and \<^verbatim>\<open>Errorf\<close>), and the pair and the error given to it.
\<close>

datatype event =
    Price_called provider_Pair "error + provider_Price"
  | Prices_called "provider_Pair list"
  | Check_called prices_map
  | Write_called item
  | Flush_called
  | json_Marshal_called jsonPrice
  | Log level string "provider_Pair option" "error option"
  | Ticker_Start Context
  | HandleFunc_called string handler
  | ListenAndServe_called
  | Close_called "error option"

text \<open>
  The collaborators are parameters of the model. Their state, of a type \<open>'e\<close> the
  model knows nothing about, is passed to every call and returned by it, so that a
  provider may answer the same question differently each time. The marshaller may keep
  the writer it was given, so \<^verbatim>\<open>Flush\<close> is given the response as well. The hook
  answers on the prices; it is taken not to change the map it is shown.
\<close>

record 'e collaborators =
  Provider_Price :: "provider_Pair \<Rightarrow> 'e \<Rightarrow> (error + provider_Price) \<times> 'e"
  Provider_Prices :: "provider_Pair list \<Rightarrow> 'e \<Rightarrow> (error + prices_map) \<times> 'e"
  Hook_Check :: "prices_map \<Rightarrow> 'e \<Rightarrow> error option \<times> 'e"
  Marshaller_Write :: "item \<Rightarrow> ResponseWriter \<Rightarrow> 'e \<Rightarrow> error option \<times> ResponseWriter \<times> 'e"
  Marshaller_Flush :: "ResponseWriter \<Rightarrow> 'e \<Rightarrow> error option \<times> ResponseWriter \<times> 'e"
  json_Marshal :: "jsonPrice \<Rightarrow> error + string"
  Decode_priceRequest :: "string \<Rightarrow> error + priceRequest"
  Decode_pricesRequest :: "string \<Rightarrow> error + pricesRequest"
  Server_ListenAndServe :: "'e \<Rightarrow> error option \<times> 'e"
  Server_Close :: "'e \<Rightarrow> error option \<times> 'e"

text \<open>What lies around a component: the collaborators' state and the trace.\<close>

record 'e world =
  env :: 'e
  trace :: "event list"

definition emit :: "event \<Rightarrow> 'e world \<Rightarrow> 'e world" where
  "emit ev s = s\<lparr>trace := trace s @ [ev]\<rparr>"

definition call_Price ::
  "'e collaborators \<Rightarrow> provider_Pair \<Rightarrow> 'e world \<Rightarrow> (error + provider_Price) \<times> 'e world" where
  "call_Price sv pair s =
     (case Provider_Price sv pair (env s) of
        (r, e) \<Rightarrow> (r, emit (Price_called pair r) (s\<lparr>env := e\<rparr>)))"

definition call_Prices ::
  "'e collaborators \<Rightarrow> provider_Pair list \<Rightarrow> 'e world \<Rightarrow> (error + prices_map) \<times> 'e world" where
  "call_Prices sv pairs s =
     (case Provider_Prices sv pairs (env s) of
        (r, e) \<Rightarrow> (r, emit (Prices_called pairs) (s\<lparr>env := e\<rparr>)))"

definition call_Check ::
  "'e collaborators \<Rightarrow> prices_map \<Rightarrow> 'e world \<Rightarrow> error option \<times> 'e world" where
  "call_Check sv prices s =
     (case Hook_Check sv prices (env s) of
        (r, e) \<Rightarrow> (r, emit (Check_called prices) (s\<lparr>env := e\<rparr>)))"

definition call_Write ::
  "'e collaborators \<Rightarrow> item \<Rightarrow> ResponseWriter \<times> 'e world \<Rightarrow>
     error option \<times> ResponseWriter \<times> 'e world" where
  "call_Write sv it ws =
     (case ws of (w, s) \<Rightarrow>
        (case Marshaller_Write sv it w (env s) of
           (r, w1, e) \<Rightarrow> (r, w1, emit (Write_called it) (s\<lparr>env := e\<rparr>))))"

definition call_Flush ::
  "'e collaborators \<Rightarrow> ResponseWriter \<times> 'e world \<Rightarrow> error option \<times> ResponseWriter \<times> 'e world" where
  "call_Flush sv ws =
     (case ws of (w, s) \<Rightarrow>
        (case Marshaller_Flush sv w (env s) of
           (r, w1, e) \<Rightarrow> (r, w1, emit Flush_called (s\<lparr>env := e\<rparr>))))"

definition call_json_Marshal ::
  "'e collaborators \<Rightarrow> jsonPrice \<Rightarrow> 'e world \<Rightarrow> (error + string) \<times> 'e world" where
  "call_json_Marshal sv j s = (json_Marshal sv j, emit (json_Marshal_called j) s)"

section \<open>The handlers of the HTTP agent\<close>

definition msg_content_type :: string where
  "msg_content_type = ''Content-Type header is not application/json''"

definition body_empty :: string where
  "body_empty = ''{}''"

definition body_failed_get :: string where
  \<open>body_failed_get = ''{"error":"failed to get prices"}''\<close>

definition body_failed_check :: string where
  \<open>body_failed_check = ''{"error":"failed to check prices"}''\<close>

definition body_failed_marshal :: string where
  \<open>body_failed_marshal = ''{"error":"failed to marshal json"}''\<close>

text \<open>
  The text of \<^verbatim>\<open>pkg/prices/cache.go\<close> goes on, after the cache (from line 148), with a
  second copy of the agent that has no single-pair endpoint; its \<^verbatim>\<open>handlePrices\<close>,
  \<^verbatim>\<open>Start\<close>, \<^verbatim>\<open>Wait\<close> and \<^verbatim>\<open>contextCancelHandler\<close> are those of \<^verbatim>\<open>pkg/agent/agent.go\<close>,
  which is the file modelled here.
\<close>

text \<open>\<^verbatim>\<open>HTTPAgent.handlePrice\<close> (\<^verbatim>\<open>agent.go\<close>, lines 157 to 201).\<close>

definition handlePrice ::
  "'e collaborators \<Rightarrow> ResponseWriter \<Rightarrow> Request \<Rightarrow> 'e world \<Rightarrow> ResponseWriter \<times> 'e world" where
  "handlePrice sv w r s =
     (if Header_Get (Header r) ''Content-Type'' \<noteq> ''application/json'' then
        (http_Error w msg_content_type StatusUnsupportedMediaType, s)
      else
        (case Decode_priceRequest sv (Body r) of
           Inl err \<Rightarrow> (http_Error w (error_Error err) StatusBadRequest, s)
         | Inr p \<Rightarrow>
             if Pair_Empty (req_Pair p) then (io_WriteString w body_empty, s)
             else
               (case call_Prices sv [req_Pair p] s of
                  (Inl err, s1) \<Rightarrow>
                    (io_WriteString w body_failed_get,
                     emit (Log Error ''failed to get prices: %v'' None (Some err)) s1)
                | (Inr prices, s1) \<Rightarrow>
                    (case call_Check sv prices s1 of
                       (Some err, s2) \<Rightarrow>
                         (io_WriteString w body_failed_check,
                          emit (Log Error ''failed to check prices: %v'' None (Some err)) s2)
                     | (None, s2) \<Rightarrow>
                         (case map_of prices (req_Pair p) of
                            None \<Rightarrow>
                              (io_WriteString w body_empty,
                               emit (Log Info ''Invalid price response for %s: %v''
                                  (Some (req_Pair p)) None) s2)
                          | Some price \<Rightarrow>
                              (case call_json_Marshal sv (jsonPriceFromGoferPrice price) s2 of
                                 (Inl err, s3) \<Rightarrow>
                                   (io_WriteString w body_empty,
                                    emit (Log Info ''Failed to get price for %s: %v''
                                       (Some (req_Pair p)) (Some err)) s3)
                               | (Inr b, s3) \<Rightarrow> (io_WriteString w b, s3)))))))"

text \<open>
  The loop of \<^verbatim>\<open>handlePrices\<close> over the prices (lines 234 to 238): each tick goes
  to the marshaller, and the error of a write goes to the marshaller as well.
\<close>

fun write_prices ::
  "'e collaborators \<Rightarrow> provider_Price list \<Rightarrow> ResponseWriter \<times> 'e world \<Rightarrow>
     ResponseWriter \<times> 'e world" where
  "write_prices sv [] ws = ws"
| "write_prices sv (p # ps) ws =
     (case call_Write sv (Item_Price p) ws of
        (None, ws1) \<Rightarrow> write_prices sv ps ws1
      | (Some mErr, ws1) \<Rightarrow>
          (case call_Write sv (Item_Error mErr) ws1 of
             (_, ws2) \<Rightarrow> write_prices sv ps ws2))"

text \<open>\<^verbatim>\<open>HTTPAgent.handlePrices\<close> (\<^verbatim>\<open>agent.go\<close>, lines 203 to 246).\<close>

definition handlePrices ::
  "'e collaborators \<Rightarrow> ResponseWriter \<Rightarrow> Request \<Rightarrow> 'e world \<Rightarrow> ResponseWriter \<times> 'e world" where
  "handlePrices sv w r s =
     (if Header_Get (Header r) ''Content-Type'' \<noteq> ''application/json'' then
        (http_Error w msg_content_type StatusUnsupportedMediaType, s)
      else
        (case Decode_pricesRequest sv (Body r) of
           Inl err \<Rightarrow> (http_Error w (error_Error err) StatusBadRequest, s)
         | Inr p \<Rightarrow>
             if req_Pairs p = None \<or> len (req_Pairs p) = 0 then (io_WriteString w body_empty, s)
             else
               (case call_Prices sv (elems (req_Pairs p)) s of
                  (Inl err, s1) \<Rightarrow>
                    (io_WriteString w body_failed_get,
                     emit (Log Error ''failed to get prices: %v'' None (Some err)) s1)
                | (Inr prices, s1) \<Rightarrow>
                    (case call_Check sv prices s1 of
                       (Some err, s2) \<Rightarrow>
                         (io_WriteString w body_failed_check,
                          emit (Log Error ''failed to check prices: %v'' None (Some err)) s2)
                     | (None, s2) \<Rightarrow>
                         (case call_Flush sv (write_prices sv (map snd prices) (w, s2)) of
                            (Some err, w3, s3) \<Rightarrow>
                              (io_WriteString w3 body_failed_marshal,
                               emit (Log Error ''failed to marshal response: %v'' None (Some err)) s3)
                          | (None, w3, s3) \<Rightarrow> (w3, s3))))))"

text \<open>
  The server gives every request a writer of its own, on which nothing was written.
  \<^verbatim>\<open>initServer\<close> routes \<^verbatim>\<open>/\<close> and \<^verbatim>\<open>/prices\<close> to \<^verbatim>\<open>handlePrices\<close> and \<^verbatim>\<open>/price\<close> to
  \<^verbatim>\<open>handlePrice\<close>.
\<close>

definition serve ::
  "handler \<Rightarrow> 'e collaborators \<Rightarrow> Request \<Rightarrow> 'e world \<Rightarrow> ResponseWriter \<times> 'e world" where
  "serve h sv r s =
     (case h of
        HandlePrices \<Rightarrow> handlePrices sv new_ResponseWriter r s
      | HandlePrice \<Rightarrow> handlePrice sv new_ResponseWriter r s)"

section \<open>Stub collaborators\<close>

text \<open>
  Collaborators as a test would stub them, for running the model on concrete requests.
  Their state counts the calls made. The provider answers \<^verbatim>\<open>Prices\<close> with a fixed
  result and \<^verbatim>\<open>Price\<close> with a tick, or with an error for the pairs of a given list, or
  with a tick marked by an error text for the base symbol \<^verbatim>\<open>STALE\<close>; the hook answers
  with a fixed result; the decoders know a few request bodies.
\<close>

definition tick_of :: "provider_Pair \<Rightarrow> provider_Price" where
  "tick_of pair =
     Price ''aggregator'' pair 1 1 1 0 \<lparr>instant = 0, location = ''Local''\<rparr> [] Map.empty
       (if Base pair = ''STALE'' then ''no data'' else [])"

definition BTCUSD :: provider_Pair where
  "BTCUSD = \<lparr>Base = ''BTC'', Quote = ''USD''\<rparr>"

definition ETHUSD :: provider_Pair where
  "ETHUSD = \<lparr>Base = ''ETH'', Quote = ''USD''\<rparr>"

definition stub_decode_prices :: "string \<Rightarrow> error + pricesRequest" where
  \<open>stub_decode_prices b =
     (if b = ''{}'' then Inr \<lparr>req_Pairs = None\<rparr>
      else if b = ''{"Pairs":[]}'' then Inr \<lparr>req_Pairs = Some []\<rparr>
      else if b = ''{"Pairs":[{"Base":"BTC","Quote":"USD"}]}'' then Inr \<lparr>req_Pairs = Some [BTCUSD]\<rparr>
      else Inl (errors_New ''invalid character''))\<close>

definition stub_decode_price :: "string \<Rightarrow> error + priceRequest" where
  \<open>stub_decode_price b =
     (if b = ''{}'' then Inr \<lparr>req_Pair = \<lparr>Base = [], Quote = []\<rparr>\<rparr>
      else if b = ''{"Pair":{"Base":"BTC","Quote":"USD"}}'' then Inr \<lparr>req_Pair = BTCUSD\<rparr>
      else Inl (errors_New ''invalid character''))\<close>

definition stub ::
  "(error + prices_map) \<Rightarrow> error option \<Rightarrow> provider_Pair list \<Rightarrow> nat collaborators" where
  "stub prices_result check_result failing =
     \<lparr>Provider_Price = (\<lambda>pair e.
          (if pair \<in> set failing then Inl (errors_New ''no price'') else Inr (tick_of pair), Suc e)),
      Provider_Prices = (\<lambda>pairs e. (prices_result, Suc e)),
      Hook_Check = (\<lambda>prices e. (check_result, Suc e)),
      Marshaller_Write = (\<lambda>it w e. (None, w, Suc e)),
      Marshaller_Flush = (\<lambda>w e. (None, w, Suc e)),
      json_Marshal = (\<lambda>j. Inr (j_Base j @ ''/'' @ j_Quote j)),
      Decode_priceRequest = stub_decode_price,
      Decode_pricesRequest = stub_decode_prices,
      Server_ListenAndServe = (\<lambda>e. (Some ErrServerClosed, Suc e)),
      Server_Close = (\<lambda>e. (None, Suc e))\<rparr>"

definition json_request :: "string \<Rightarrow> Request" where
  "json_request b = \<lparr>Header = [(''Content-Type'', ''application/json'')], Body = b\<rparr>"

definition plain_request :: "string \<Rightarrow> Request" where
  "plain_request b = \<lparr>Header = [(''Content-Type'', ''text/plain'')], Body = b\<rparr>"

definition world0 :: "nat world" where
  "world0 = \<lparr>env = 0, trace = []\<rparr>"

section \<open>The service lifecycle\<close>

text \<open>
  The completion channel \<^verbatim>\<open>waitCh\<close> is made without a buffer. What the model keeps of
  it: whether it was closed, and the values that went through it, in order. Closing a
  closed channel panics (\<open>None\<close>). A send waits for a receiver; a receive on a closed
  channel gives nil and \<^verbatim>\<open>ok = false\<close> at once.
\<close>

record chan =
  closed :: bool
  sent :: "error option list"

definition make_chan :: chan where
  "make_chan = \<lparr>closed = False, sent = []\<rparr>"

definition close_chan :: "chan \<Rightarrow> chan option" where
  "close_chan ch = (if closed ch then None else Some (ch\<lparr>closed := True\<rparr>))"

text \<open>
  \<^verbatim>\<open>Cache\<close> and \<^verbatim>\<open>HTTPAgent\<close> both begin with the fields \<^verbatim>\<open>ctx\<close> and \<^verbatim>\<open>waitCh\<close>; the
  records share them. The provider, the hook, the marshaller, the logger, the ticker
  and the server are the collaborators. The \<^verbatim>\<open>prices\<close> of a \<^verbatim>\<open>Cache\<close> is a Go map; a
  nil map has no entry.
\<close>

record Service =
  ctx :: "Context option"
  waitCh :: chan

record Cache = Service +
  pairs :: "provider_Pair list"
  prices :: "provider_Pair \<rightharpoonup> provider_Price"

record HTTPAgent = Service +
  address :: string

text \<open>
  The \<^verbatim>\<open>Cache\<close> that \<^verbatim>\<open>New\<close> returns (\<^verbatim>\<open>cache.go\<close>, lines 70 to 76) when the provider is
  there and \<^verbatim>\<open>provider.NewPairs\<close> has parsed the configured pairs, and the agent that
  \<^verbatim>\<open>NewHTTPAgent\<close> returns.
\<close>

definition New :: "provider_Pair list \<Rightarrow> Cache" where
  "New ps = \<lparr>ctx = None, waitCh = make_chan, pairs = ps, prices = Map.empty\<rparr>"

definition NewHTTPAgent :: "string \<Rightarrow> HTTPAgent" where
  "NewHTTPAgent addr = \<lparr>ctx = None, waitCh = make_chan, address = addr\<rparr>"

text \<open>\<^verbatim>\<open>Wait\<close> of either component returns its channel.\<close>

definition Wait :: "'a Service_scheme \<Rightarrow> chan" where
  "Wait c = waitCh c"

text \<open>
  A goroutine of a component, by the place where it waits: the broadcaster at its
  \<^verbatim>\<open>select\<close>, the function that \<^verbatim>\<open>HTTPAgent.Start\<close> spawns before and inside
  \<^verbatim>\<open>ListenAndServe\<close>, the cancel handler at \<^verbatim>\<open><-ctx.Done()\<close> and, in the agent, at its
  send of the value on \<^verbatim>\<open>waitCh\<close>.
\<close>

datatype goroutine =
    BroadcasterRoutine
  | ServerRoutine
  | ListenAndServe
  | ContextCancelHandler
  | ContextCancelHandler_send "error option"

text \<open>
  The process around a component \<open>component\<close>: the collaborators' state and the trace, the
  goroutines that were spawned and have not returned, the contexts that were
  cancelled, what the receivers on \<^verbatim>\<open>Wait()\<close> got (the value and \<^verbatim>\<open>ok\<close>), the patterns
  registered in the process-wide \<^verbatim>\<open>http.DefaultServeMux\<close>, the responses the server
  gave, and whether a panic has ended the process.
\<close>

record ('e, 'c) process =
  component :: 'c
  world :: "'e world"
  routines :: "goroutine list"
  cancelled :: "Context list"
  received :: "(error option \<times> bool) list"
  mux :: "(string \<times> handler) list"
  responses :: "ResponseWriter list"
  crashed :: bool

definition new_process :: "'c \<Rightarrow> 'e \<Rightarrow> ('e, 'c) process" where
  "new_process c e =
     \<lparr>component = c, world = \<lparr>env = e, trace = []\<rparr>, routines = [], cancelled = [],
      received = [], mux = [], responses = [], crashed = False\<rparr>"

definition log :: "level \<Rightarrow> string \<Rightarrow> ('e, 'c) process \<Rightarrow> ('e, 'c) process" where
  "log l m s = s\<lparr>world := emit (Log l m None None) (world s)\<rparr>"

text \<open>\<^verbatim>\<open><-ctx.Done()\<close> of the stored context can proceed.\<close>

definition ctx_Done :: "('e, 'a Service_scheme) process \<Rightarrow> bool" where
  "ctx_Done s = (case ctx (component s) of None \<Rightarrow> False | Some c \<Rightarrow> c \<in> set (cancelled s))"

text \<open>The outcome of a call that can panic.\<close>

datatype 'a outcome = Returned 'a | Panicked

section \<open>The polling cache\<close>

text \<open>\<^verbatim>\<open>Cache.Start\<close> (\<^verbatim>\<open>cache.go\<close>, lines 81 to 94). The ticker is taken to be there.\<close>

definition Cache_Start ::
  "('e, Cache) process \<Rightarrow> Context option \<Rightarrow> error option \<times> ('e, Cache) process" where
  "Cache_Start s c =
     (if ctx (component s) \<noteq> None then (Some (errors_New ''service can be started only once''), s)
      else
        (case c of
           None \<Rightarrow> (Some (errors_New ''context must not be nil''), s)
         | Some x \<Rightarrow>
             (None,
              s\<lparr>component := (component s)\<lparr>ctx := Some x\<rparr>,
                world := emit (Ticker_Start x) (emit (Log Debug ''Starting'' None None) (world s)),
                routines := routines s @ [BroadcasterRoutine, ContextCancelHandler]\<rparr>)))"

text \<open>
  \<^verbatim>\<open>Cache.update\<close> (lines 103 to 118). The \<^verbatim>\<open>median.Price\<close> it builds from the tick is a
  local value: the function returns the error only.
\<close>

record median_Price =
  Wat :: string
  Age :: time_Time
  Val :: float64

definition update ::
  "'e collaborators \<Rightarrow> provider_Pair \<Rightarrow> 'e world \<Rightarrow> error option \<times> 'e world" where
  "update sv pair s =
     (case call_Price sv pair s of
        (Inl err, s1) \<Rightarrow> (Some err, s1)
      | (Inr tick, s1) \<Rightarrow>
          if p_Error tick \<noteq> [] then (Some (errors_New (p_Error tick)), s1)
          else
            (let price = \<lparr>Wat = Base pair @ Quote pair, Age = p_Time tick, Val = p_Price tick\<rparr>
             in (None, s1)))"

text \<open>The loop over \<^verbatim>\<open>g.pairs\<close> of one tick (lines 127 to 138).\<close>

fun update_pairs :: "'e collaborators \<Rightarrow> provider_Pair list \<Rightarrow> 'e world \<Rightarrow> 'e world" where
  "update_pairs sv [] s = s"
| "update_pairs sv (pair # ps) s =
     (case update sv pair s of
        (Some err, s1) \<Rightarrow>
          update_pairs sv ps (emit (Log Warn ''Unable to update price'' (Some pair) (Some err)) s1)
      | (None, s1) \<Rightarrow>
          update_pairs sv ps (emit (Log Info ''Price update'' (Some pair) None) s1))"

text \<open>
  \<^verbatim>\<open>Cache.contextCancelHandler\<close> (lines 143 to 147) once \<^verbatim>\<open><-g.ctx.Done()\<close> has
  proceeded: the deferred calls, last first.
\<close>

definition Cache_contextCancelHandler :: "('e, Cache) process \<Rightarrow> ('e, Cache) process" where
  "Cache_contextCancelHandler s =
     (let s1 = (log Debug ''Stopped'' s)\<lparr>routines := remove1 ContextCancelHandler (routines s)\<rparr>
      in case close_chan (waitCh (component s1)) of
           None \<Rightarrow> s1\<lparr>crashed := True\<rparr>
         | Some ch \<Rightarrow> s1\<lparr>component := (component s1)\<lparr>waitCh := ch\<rparr>\<rparr>)"

text \<open>
  What can happen next in the process of a component: a caller calls \<^verbatim>\<open>Start\<close>; a
  context is cancelled; the \<^verbatim>\<open>select\<close> of the broadcaster takes a tick, or takes
  \<^verbatim>\<open>ctx.Done()\<close>; the cancel handler gets past \<^verbatim>\<open><-ctx.Done()\<close>; a waiter receives from
  \<^verbatim>\<open>Wait()\<close>; the goroutine of the server starts to listen; \<^verbatim>\<open>ListenAndServe\<close> returns;
  the server hands a request to a handler. A goroutine runs from the place where it
  waits to the next one. \<open>None\<close>: the step cannot be taken in this state.
\<close>

datatype action =
    Start_called "Context option"
  | Cancel Context
  | Tick
  | Broadcaster_Done
  | Handler_Done
  | Receive
  | Server_Begins
  | Server_Returns
  | Serve handler Request

text \<open>A receive on the channel of the cache: no goroutine of the cache sends on it.\<close>

definition Cache_receive :: "('e, Cache) process \<Rightarrow> ('e, Cache) process option" where
  "Cache_receive s =
     (if closed (waitCh (component s)) then Some (s\<lparr>received := received s @ [(None, False)]\<rparr>)
      else None)"

definition cache_step ::
  "'e collaborators \<Rightarrow> action \<Rightarrow> ('e, Cache) process \<Rightarrow> ('e, Cache) process option" where
  "cache_step sv a s =
     (if crashed s then None
      else
        (case a of
           Start_called c \<Rightarrow> Some (snd (Cache_Start s c))
         | Cancel c \<Rightarrow> Some (s\<lparr>cancelled := c # cancelled s\<rparr>)
         | Tick \<Rightarrow>
             if BroadcasterRoutine \<in> set (routines s)
             then Some (s\<lparr>world := update_pairs sv (pairs (component s)) (world s)\<rparr>)
             else None
         | Broadcaster_Done \<Rightarrow>
             if BroadcasterRoutine \<in> set (routines s) \<and> ctx_Done s
             then Some (s\<lparr>routines := remove1 BroadcasterRoutine (routines s)\<rparr>)
             else None
         | Handler_Done \<Rightarrow>
             if ContextCancelHandler \<in> set (routines s) \<and> ctx_Done s
             then Some (Cache_contextCancelHandler s)
             else None
         | Receive \<Rightarrow> Cache_receive s
         | _ \<Rightarrow> None))"

text \<open>A schedule is run step by step; it cannot be run when one of its steps cannot be taken.\<close>

fun run :: "('a \<Rightarrow> 's \<Rightarrow> 's option) \<Rightarrow> 'a list \<Rightarrow> 's \<Rightarrow> 's option" where
  "run step [] s = Some s"
| "run step (a # as) s = (case step a s of None \<Rightarrow> None | Some s1 \<Rightarrow> run step as s1)"

section \<open>The HTTP agent as a service\<close>

text \<open>
  \<^verbatim>\<open>http.HandleFunc\<close> registers a pattern in the \<^verbatim>\<open>DefaultServeMux\<close> of the process and
  panics (\<open>None\<close>) when the pattern is registered already.
\<close>

definition HandleFunc ::
  "string \<Rightarrow> handler \<Rightarrow> ('e, 'c) process \<Rightarrow> ('e, 'c) process option" where
  "HandleFunc pat h s =
     (if pat \<in> set (map fst (mux s)) then None
      else Some (s\<lparr>mux := mux s @ [(pat, h)],
                   world := emit (HandleFunc_called pat h) (world s)\<rparr>))"

text \<open>\<^verbatim>\<open>HTTPAgent.initServer\<close> (\<^verbatim>\<open>agent.go\<close>, lines 140 to 148).\<close>

definition initServer ::
  "('e, HTTPAgent) process \<Rightarrow> error option outcome \<times> ('e, HTTPAgent) process" where
  "initServer s =
     (let s0 = log Info ''initializing HTTP server on %s'' s in
      case HandleFunc ''/'' HandlePrices s0 of
        None \<Rightarrow> (Panicked, s0)
      | Some s1 \<Rightarrow>
          (case HandleFunc ''/price'' HandlePrice s1 of
             None \<Rightarrow> (Panicked, s1)
           | Some s2 \<Rightarrow>
               (case HandleFunc ''/prices'' HandlePrices s2 of
                  None \<Rightarrow> (Panicked, s2)
                | Some s3 \<Rightarrow> (Returned None, s3))))"

text \<open>
  \<^verbatim>\<open>HTTPAgent.Start\<close> (lines 109 to 133). A panic of \<^verbatim>\<open>initServer\<close> goes up through
  \<^verbatim>\<open>Start\<close> and ends the process.
\<close>

definition HTTPAgent_Start ::
  "('e, HTTPAgent) process \<Rightarrow> Context option \<Rightarrow>
     error option outcome \<times> ('e, HTTPAgent) process" where
  "HTTPAgent_Start s c =
     (if ctx (component s) \<noteq> None then
        (Returned (Some (errors_New ''service can be started only once'')), s)
      else
        (case c of
           None \<Rightarrow> (Returned (Some (errors_New ''context must not be nil'')), s)
         | Some x \<Rightarrow>
             (case initServer ((log Debug ''Starting'' s)\<lparr>component := (component s)\<lparr>ctx := Some x\<rparr>\<rparr>) of
                (Panicked, s1) \<Rightarrow> (Panicked, s1\<lparr>crashed := True\<rparr>)
              | (Returned (Some err), s1) \<Rightarrow> (Returned (Some err), s1)
              | (Returned None, s1) \<Rightarrow>
                  (Returned None,
                   s1\<lparr>routines := routines s1 @ [ServerRoutine, ContextCancelHandler]\<rparr>))))"

text \<open>
  The function that \<^verbatim>\<open>Start\<close> spawns (lines 124 to 130): up to the call of
  \<^verbatim>\<open>ListenAndServe\<close>, and from its return.
\<close>

definition server_begins :: "('e, HTTPAgent) process \<Rightarrow> ('e, HTTPAgent) process" where
  "server_begins s =
     (let s1 = log Debug ''Starting HTTP server'' s
      in s1\<lparr>world := emit ListenAndServe_called (world s1),
            routines := remove1 ServerRoutine (routines s) @ [ListenAndServe]\<rparr>)"

definition server_returns ::
  "'e collaborators \<Rightarrow> ('e, HTTPAgent) process \<Rightarrow> ('e, HTTPAgent) process" where
  "server_returns sv s =
     (case Server_ListenAndServe sv (env (world s)) of
        (err, e) \<Rightarrow>
          (let w1 = (world s)\<lparr>env := e\<rparr>;
               w2 = (if err \<noteq> None \<and> err \<noteq> Some ErrServerClosed
                     then emit (Log Error ''HTTP server crashed'' None err) w1 else w1)
           in s\<lparr>world := w2, routines := remove1 ListenAndServe (routines s)\<rparr>))"

text \<open>
  \<^verbatim>\<open>HTTPAgent.contextCancelHandler\<close> (lines 150 to 155). Past \<^verbatim>\<open><-s.ctx.Done()\<close> it
  closes the server and comes to the send of the result on \<^verbatim>\<open>waitCh\<close>; a send on a closed
  channel panics. When a waiter takes the value, the deferred calls run, last first.
\<close>

definition HTTPAgent_contextCancelHandler ::
  "'e collaborators \<Rightarrow> ('e, HTTPAgent) process \<Rightarrow> ('e, HTTPAgent) process" where
  "HTTPAgent_contextCancelHandler sv s =
     (case Server_Close sv (env (world s)) of
        (err, e) \<Rightarrow>
          (let s1 = s\<lparr>world := emit (Close_called err) ((world s)\<lparr>env := e\<rparr>),
                      routines := remove1 ContextCancelHandler (routines s)\<rparr>
           in if closed (waitCh (component s1)) then s1\<lparr>crashed := True\<rparr>
              else s1\<lparr>routines := routines s1 @ [ContextCancelHandler_send err]\<rparr>))"

definition HTTPAgent_contextCancelHandler_sent ::
  "error option \<Rightarrow> ('e, HTTPAgent) process \<Rightarrow> ('e, HTTPAgent) process" where
  "HTTPAgent_contextCancelHandler_sent v s =
     (let s1 = (log Debug ''Stopped'' s)
                 \<lparr>routines := remove1 (ContextCancelHandler_send v) (routines s)\<rparr>
      in case close_chan (waitCh (component s1)) of
           None \<Rightarrow> s1\<lparr>crashed := True\<rparr>
         | Some ch \<Rightarrow> s1\<lparr>component := (component s1)\<lparr>waitCh := ch\<rparr>\<rparr>)"

text \<open>The goroutine that waits at a send on \<^verbatim>\<open>waitCh\<close>, if there is one: the value it sends.\<close>

fun sender :: "goroutine list \<Rightarrow> error option option" where
  "sender [] = None"
| "sender (ContextCancelHandler_send v # rs) = Some v"
| "sender (r # rs) = sender rs"

text \<open>
  A receive on the channel of the agent: from a closed channel nil; else the value of
  the goroutine that waits to send, which then goes on; else the receiver waits.
\<close>

definition HTTPAgent_receive :: "('e, HTTPAgent) process \<Rightarrow> ('e, HTTPAgent) process option" where
  "HTTPAgent_receive s =
     (if closed (waitCh (component s)) then Some (s\<lparr>received := received s @ [(None, False)]\<rparr>)
      else
        (case sender (routines s) of
           None \<Rightarrow> None
         | Some v \<Rightarrow>
             Some (HTTPAgent_contextCancelHandler_sent v
                (s\<lparr>component := (component s)\<lparr>waitCh := (waitCh (component s))\<lparr>sent := sent (waitCh (component s)) @ [v]\<rparr>\<rparr>,
                   received := received s @ [(v, True)]\<rparr>))))"

text \<open>
  The \<^verbatim>\<open>DefaultServeMux\<close> gives a request to the handler that a pattern was registered
  with; the server answers while \<^verbatim>\<open>ListenAndServe\<close> runs.
\<close>

definition agent_step ::
  "'e collaborators \<Rightarrow> action \<Rightarrow> ('e, HTTPAgent) process \<Rightarrow> ('e, HTTPAgent) process option" where
  "agent_step sv a s =
     (if crashed s then None
      else
        (case a of
           Start_called c \<Rightarrow> Some (snd (HTTPAgent_Start s c))
         | Cancel c \<Rightarrow> Some (s\<lparr>cancelled := c # cancelled s\<rparr>)
         | Handler_Done \<Rightarrow>
             if ContextCancelHandler \<in> set (routines s) \<and> ctx_Done s
             then Some (HTTPAgent_contextCancelHandler sv s)
             else None
         | Receive \<Rightarrow> HTTPAgent_receive s
         | Server_Begins \<Rightarrow>
             if ServerRoutine \<in> set (routines s) then Some (server_begins s) else None
         | Server_Returns \<Rightarrow>
             if ListenAndServe \<in> set (routines s) then Some (server_returns sv s) else None
         | Serve h r \<Rightarrow>
             if ListenAndServe \<in> set (routines s) \<and> h \<in> set (map snd (mux s))
             then (case serve h sv r (world s) of
                     (w, s1) \<Rightarrow> Some (s\<lparr>world := s1, responses := responses s @ [w]\<rparr>))
             else None
         | _ \<Rightarrow> None))"

section \<open>Invariants of the two processes\<close>

text \<open>
  The cancel handler of a component among its goroutines, at either place where it
  waits.
\<close>

fun is_handler :: "goroutine \<Rightarrow> bool" where
  "is_handler ContextCancelHandler = True"
| "is_handler (ContextCancelHandler_send v) = True"
| "is_handler r = False"

definition handlers :: "goroutine list \<Rightarrow> goroutine list" where
  "handlers rs = filter is_handler rs"

text \<open>
  The agent: before \<^verbatim>\<open>Start\<close> there is no cancel handler and the channel is as it was
  made. After it there is one cancel handler, which waits for the context or at its
  send, and the channel is as it was made; or the handler has returned, one value has
  gone through the channel to the first receiver, the channel is closed and every later
  receiver got nil.
\<close>

definition agent_inv :: "('e, HTTPAgent) process \<Rightarrow> bool" where
  "agent_inv s =
     (crashed s \<or>
      (case ctx (component s) of
         None \<Rightarrow>
           handlers (routines s) = [] \<and> waitCh (component s) = make_chan \<and> received s = []
       | Some c \<Rightarrow>
           (handlers (routines s) = [ContextCancelHandler] \<and>
              waitCh (component s) = make_chan \<and> received s = []) \<or>
           (\<exists>v. handlers (routines s) = [ContextCancelHandler_send v] \<and>
              waitCh (component s) = make_chan \<and> received s = []) \<or>
           (\<exists>v n. handlers (routines s) = [] \<and>
              waitCh (component s) = \<lparr>closed = True, sent = [v]\<rparr> \<and>
              received s = (v, True) # replicate n (None, False))))"

text \<open>
  A value that the cancel handler waits to send, and a value that has gone through the
  channel, is the result of a call of \<^verbatim>\<open>server.Close\<close> in the trace.
\<close>

definition agent_close_inv :: "('e, HTTPAgent) process \<Rightarrow> bool" where
  "agent_close_inv s =
     ((\<forall>v. ContextCancelHandler_send v \<in> set (routines s) \<longrightarrow>
          Close_called v \<in> set (trace (world s))) \<and>
      (\<forall>v \<in> set (sent (waitCh (component s))). Close_called v \<in> set (trace (world s))))"

text \<open>No panic has happened, and before \<^verbatim>\<open>Start\<close> no pattern is registered.\<close>

definition agent_sound :: "('e, HTTPAgent) process \<Rightarrow> bool" where
  "agent_sound s = (\<not> crashed s \<and> (ctx (component s) = None \<longrightarrow> mux s = []))"

text \<open>
  The cache: no panic has happened; before \<^verbatim>\<open>Start\<close> there is no cancel handler;
  after it there is one and the channel is as it was made, or the handler has returned
  and the channel is closed, and no value has gone through it.
\<close>

definition cache_inv :: "('e, Cache) process \<Rightarrow> bool" where
  "cache_inv s =
     (\<not> crashed s \<and>
      (case ctx (component s) of
         None \<Rightarrow> handlers (routines s) = [] \<and> waitCh (component s) = make_chan
       | Some c \<Rightarrow>
           (handlers (routines s) = [ContextCancelHandler] \<and>
              waitCh (component s) = make_chan) \<or>
           (handlers (routines s) = [] \<and>
              waitCh (component s) = \<lparr>closed = True, sent = []\<rparr>)))"

text \<open>No value has gone through the channel, and every receiver got nil from the closed channel.\<close>

definition only_closed :: "('e, Cache) process \<Rightarrow> bool" where
  "only_closed s =
     (sent (waitCh (component s)) = [] \<and> (\<forall>r \<in> set (received s). r = (None, False)))"

section \<open>Concrete processes\<close>

text \<open>
  The pairs \<^verbatim>\<open>A/B\<close>, \<^verbatim>\<open>C/D\<close> and \<^verbatim>\<open>STALE/USD\<close>, a stub provider whose \<^verbatim>\<open>Price\<close> fails for
  \<^verbatim>\<open>C/D\<close> only (and marks the tick of \<^verbatim>\<open>STALE/USD\<close> with an error text), stubs that
  answer \<^verbatim>\<open>Prices\<close> with an error, with a tick of the pair asked for, and with a tick of
  another pair, and a stub whose hook refuses the prices.
\<close>

definition AB :: provider_Pair where
  "AB = \<lparr>Base = ''A'', Quote = ''B''\<rparr>"

definition CD :: provider_Pair where
  "CD = \<lparr>Base = ''C'', Quote = ''D''\<rparr>"

definition STALEUSD :: provider_Pair where
  "STALEUSD = \<lparr>Base = ''STALE'', Quote = ''USD''\<rparr>"

definition stub_CD_fails :: "nat collaborators" where
  "stub_CD_fails = stub (Inr []) None [CD]"

definition stub_get_fails :: "nat collaborators" where
  "stub_get_fails = stub (Inl (errors_New ''no price'')) None []"

definition stub_check_fails :: "nat collaborators" where
  "stub_check_fails = stub (Inr [(BTCUSD, tick_of BTCUSD)]) (Some (errors_New ''deviation'')) []"

definition stub_found :: "nat collaborators" where
  "stub_found = stub (Inr [(BTCUSD, tick_of BTCUSD)]) None []"

definition stub_absent :: "nat collaborators" where
  "stub_absent = stub (Inr [(ETHUSD, tick_of ETHUSD)]) None []"

definition body_BTCUSD_price :: string where
  \<open>body_BTCUSD_price = ''{"Pair":{"Base":"BTC","Quote":"USD"}}''\<close>

definition body_BTCUSD_prices :: string where
  \<open>body_BTCUSD_prices = ''{"Pairs":[{"Base":"BTC","Quote":"USD"}]}''\<close>

definition body_no_pairs :: string where
  \<open>body_no_pairs = ''{"Pairs":[]}''\<close>

definition cache0 :: "(nat, Cache) process" where
  "cache0 = new_process (New [AB, CD, STALEUSD]) 0"

definition agent0 :: "(nat, HTTPAgent) process" where
  "agent0 = new_process (NewHTTPAgent '':8080'') 0"


section \<open>Properties of the handlers\<close>

lemma http_Error_new:
  "http_Error new_ResponseWriter msg code = \<lparr>status = Some code, body = msg @ [CHR 0x0A]\<rparr>"
  by (simp add: http_Error_def io_WriteString_def WriteHeader_def new_ResponseWriter_def)

lemma io_WriteString_new:
  "io_WriteString new_ResponseWriter b = \<lparr>status = Some 200, body = b\<rparr>"
  by (simp add: io_WriteString_def WriteHeader_def new_ResponseWriter_def StatusOK_def)

lemma handlePrice_415:
  "Header_Get (Header r) ''Content-Type'' \<noteq> ''application/json'' \<Longrightarrow>
   handlePrice sv new_ResponseWriter r s =
     (\<lparr>status = Some 415, body = msg_content_type @ [CHR 0x0A]\<rparr>, s)"
  by (simp add: handlePrice_def http_Error_new StatusUnsupportedMediaType_def)

lemma handlePrices_415:
  "Header_Get (Header r) ''Content-Type'' \<noteq> ''application/json'' \<Longrightarrow>
   handlePrices sv new_ResponseWriter r s =
     (\<lparr>status = Some 415, body = msg_content_type @ [CHR 0x0A]\<rparr>, s)"
  by (simp add: handlePrices_def http_Error_new StatusUnsupportedMediaType_def)

lemma handlePrice_get_fails:
  assumes "Header_Get (Header r) ''Content-Type'' = ''application/json''"
    and "Decode_priceRequest sv (Body r) = Inr p"
    and "\<not> Pair_Empty (req_Pair p)"
    and "Provider_Prices sv [req_Pair p] (env s) = (Inl err, e1)"
  shows "fst (handlePrice sv new_ResponseWriter r s) =
           \<lparr>status = Some 200, body = body_failed_get\<rparr>"
  using assms by (simp add: handlePrice_def call_Prices_def io_WriteString_new)

lemma handlePrice_check_fails:
  assumes "Header_Get (Header r) ''Content-Type'' = ''application/json''"
    and "Decode_priceRequest sv (Body r) = Inr p"
    and "\<not> Pair_Empty (req_Pair p)"
    and "Provider_Prices sv [req_Pair p] (env s) = (Inr pm, e1)"
    and "Hook_Check sv pm e1 = (Some err, e2)"
  shows "fst (handlePrice sv new_ResponseWriter r s) =
           \<lparr>status = Some 200, body = body_failed_check\<rparr>"
  using assms
  by (simp add: handlePrice_def call_Prices_def call_Check_def emit_def io_WriteString_new)

lemma handlePrices_get_fails:
  assumes "Header_Get (Header r) ''Content-Type'' = ''application/json''"
    and "Decode_pricesRequest sv (Body r) = Inr p"
    and "req_Pairs p = Some ps" and "ps \<noteq> []"
    and "Provider_Prices sv ps (env s) = (Inl err, e1)"
  shows "fst (handlePrices sv new_ResponseWriter r s) =
           \<lparr>status = Some 200, body = body_failed_get\<rparr>"
  using assms by (simp add: handlePrices_def call_Prices_def io_WriteString_new)

lemma handlePrices_check_fails:
  assumes "Header_Get (Header r) ''Content-Type'' = ''application/json''"
    and "Decode_pricesRequest sv (Body r) = Inr p"
    and "req_Pairs p = Some ps" and "ps \<noteq> []"
    and "Provider_Prices sv ps (env s) = (Inr pm, e1)"
    and "Hook_Check sv pm e1 = (Some err, e2)"
  shows "fst (handlePrices sv new_ResponseWriter r s) =
           \<lparr>status = Some 200, body = body_failed_check\<rparr>"
  using assms
  by (simp add: handlePrices_def call_Prices_def call_Check_def emit_def io_WriteString_new)

lemma handlePrices_nothing_requested:
  assumes "Header_Get (Header r) ''Content-Type'' = ''application/json''"
    and "Decode_pricesRequest sv (Body r) = Inr p"
    and "req_Pairs p = None \<or> req_Pairs p = Some []"
  shows "handlePrices sv new_ResponseWriter r s = (\<lparr>status = Some 200, body = ''{}''\<rparr>, s)"
  using assms by (auto simp add: handlePrices_def io_WriteString_new body_empty_def)

lemma handlePrice_nothing_requested:
  assumes "Header_Get (Header r) ''Content-Type'' = ''application/json''"
    and "Decode_priceRequest sv (Body r) = Inr p"
    and "Pair_Empty (req_Pair p)"
  shows "handlePrice sv new_ResponseWriter r s = (\<lparr>status = Some 200, body = ''{}''\<rparr>, s)"
  using assms by (simp add: handlePrice_def io_WriteString_new body_empty_def)

lemmas stub_simps =
  stub_def stub_decode_price_def stub_decode_prices_def json_request_def plain_request_def
  Header_Get_def world0_def BTCUSD_def ETHUSD_def Pair_Empty_def tick_of_def
  stub_get_fails_def stub_check_fails_def stub_found_def stub_absent_def
  body_BTCUSD_price_def body_BTCUSD_prices_def body_no_pairs_def

text \<open>
  C4, as amended. A request whose \<^verbatim>\<open>Content-Type\<close> is not \<^verbatim>\<open>application/json\<close> is
  answered, by either handler, with the status 415 and with the rejection reason
  followed by a line feed as the body (\<^verbatim>\<open>http.Error\<close> writes the reason as a line). The
  world is left as it was: no collaborator is called, the provider among them, and
  nothing is logged.
\<close>

theorem C4_unsupported_media_type:
  assumes "Header_Get (Header r) ''Content-Type'' \<noteq> ''application/json''"
  shows "serve h sv r s =
     (\<lparr>status = Some 415,
        body = ''Content-Type header is not application/json'' @ [CHR 0x0A]\<rparr>, s)"
  using assms
  by (cases h) (simp_all add: serve_def handlePrice_415 handlePrices_415 msg_content_type_def)

theorem C4_unsupported_media_type_witness:
  "Header_Get (Header (plain_request body_BTCUSD_price)) ''Content-Type'' \<noteq> ''application/json'' \<and>
   serve HandlePrice stub_found (plain_request body_BTCUSD_price) world0 =
     (\<lparr>status = Some 415,
        body = ''Content-Type header is not application/json'' @ [CHR 0x0A]\<rparr>, world0)"
proof -
  have h: "Header_Get (Header (plain_request body_BTCUSD_price)) ''Content-Type'' \<noteq> ''application/json''"
    by (simp add: plain_request_def Header_Get_def)
  from h C4_unsupported_media_type [OF h] show ?thesis by simp
qed

text \<open>
  C4 as it is stated fails: the body of the answer to a \<^verbatim>\<open>text/plain\<close> request is not
  the rejection reason alone.
\<close>

theorem C4_body_is_not_the_reason_alone:
  "body (fst (serve HandlePrices stub_found (plain_request body_BTCUSD_prices) world0))
     \<noteq> ''Content-Type header is not application/json''"
  by (simp add: serve_def handlePrices_def plain_request_def Header_Get_def http_Error_new
      msg_content_type_def)

text \<open>
  C5. A request with the right \<^verbatim>\<open>Content-Type\<close> whose body decodes to a pair that is not
  empty (single-pair handler) or to a list of pairs that is not empty (multi-pair
  handler): when \<^verbatim>\<open>Prices\<close> of the provider fails, the answer has the status 200 and the
  body \<^verbatim>\<open>{"error":"failed to get prices"}\<close>; when it succeeds and \<^verbatim>\<open>Check\<close> of the hook
  fails, the answer has the status 200 and the body \<^verbatim>\<open>{"error":"failed to check prices"}\<close>.
\<close>

theorem C5_provider_or_hook_failure_is_200:
  assumes "Header_Get (Header r) ''Content-Type'' = ''application/json''"
  shows \<open>(Decode_priceRequest sv (Body r) = Inr p \<and> \<not> Pair_Empty (req_Pair p) \<longrightarrow>
            (Provider_Prices sv [req_Pair p] (env s) = (Inl err, e1) \<longrightarrow>
               fst (serve HandlePrice sv r s) =
                 \<lparr>status = Some 200, body = ''{"error":"failed to get prices"}''\<rparr>) \<and>
            (Provider_Prices sv [req_Pair p] (env s) = (Inr pm, e1) \<and>
             Hook_Check sv pm e1 = (Some err, e2) \<longrightarrow>
               fst (serve HandlePrice sv r s) =
                 \<lparr>status = Some 200, body = ''{"error":"failed to check prices"}''\<rparr>)) \<and>
         (Decode_pricesRequest sv (Body r) = Inr q \<and> req_Pairs q = Some ps \<and> ps \<noteq> [] \<longrightarrow>
            (Provider_Prices sv ps (env s) = (Inl err, e1) \<longrightarrow>
               fst (serve HandlePrices sv r s) =
                 \<lparr>status = Some 200, body = ''{"error":"failed to get prices"}''\<rparr>) \<and>
            (Provider_Prices sv ps (env s) = (Inr pm, e1) \<and>
             Hook_Check sv pm e1 = (Some err, e2) \<longrightarrow>
               fst (serve HandlePrices sv r s) =
                 \<lparr>status = Some 200, body = ''{"error":"failed to check prices"}''\<rparr>))\<close>
  using assms
  by (auto simp add: serve_def body_failed_get_def body_failed_check_def
      dest: handlePrice_get_fails handlePrice_check_fails
            handlePrices_get_fails handlePrices_check_fails)

theorem C5_provider_or_hook_failure_is_200_witness:
  \<open>fst (serve HandlePrice stub_get_fails (json_request body_BTCUSD_price) world0) =
      \<lparr>status = Some 200, body = ''{"error":"failed to get prices"}''\<rparr> \<and>
    fst (serve HandlePrice stub_check_fails (json_request body_BTCUSD_price) world0) =
      \<lparr>status = Some 200, body = ''{"error":"failed to check prices"}''\<rparr> \<and>
    fst (serve HandlePrices stub_get_fails (json_request body_BTCUSD_prices) world0) =
      \<lparr>status = Some 200, body = ''{"error":"failed to get prices"}''\<rparr> \<and>
    fst (serve HandlePrices stub_check_fails (json_request body_BTCUSD_prices) world0) =
      \<lparr>status = Some 200, body = ''{"error":"failed to check prices"}''\<rparr>\<close>
proof -
  have ct: "Header_Get (Header (json_request b)) ''Content-Type'' = ''application/json''" for b
    by (simp add: json_request_def Header_Get_def)
  note a = C5_provider_or_hook_failure_is_200 [OF ct, where sv = stub_get_fails and s = world0
      and p = "\<lparr>req_Pair = BTCUSD\<rparr>" and q = "\<lparr>req_Pairs = Some [BTCUSD]\<rparr>" and ps = "[BTCUSD]"
      and err = "errors_New ''no price''" and ?e1.0 = 1]
  note b = C5_provider_or_hook_failure_is_200 [OF ct, where sv = stub_check_fails and s = world0
      and p = "\<lparr>req_Pair = BTCUSD\<rparr>" and q = "\<lparr>req_Pairs = Some [BTCUSD]\<rparr>" and ps = "[BTCUSD]"
      and pm = "[(BTCUSD, tick_of BTCUSD)]" and err = "errors_New ''deviation''"
      and ?e1.0 = 1 and ?e2.0 = 2]
  show ?thesis
    using a [of body_BTCUSD_price] a [of body_BTCUSD_prices]
      b [of body_BTCUSD_price] b [of body_BTCUSD_prices]
    by (simp add: stub_simps)
qed

text \<open>
  C6. A request with the right \<^verbatim>\<open>Content-Type\<close> whose body decodes to a nil or empty
  list of pairs (multi-pair handler) or to the empty pair (single-pair handler) is
  answered with the status 200 and the body \<^verbatim>\<open>{}\<close>, and the world is left as it was:
  neither the provider nor the hook nor a marshaller is called.
\<close>

theorem C6_nothing_requested:
  assumes "Header_Get (Header r) ''Content-Type'' = ''application/json''"
  shows "(Decode_pricesRequest sv (Body r) = Inr q \<and>
            (req_Pairs q = None \<or> req_Pairs q = Some []) \<longrightarrow>
            serve HandlePrices sv r s = (\<lparr>status = Some 200, body = ''{}''\<rparr>, s)) \<and>
         (Decode_priceRequest sv (Body r) = Inr p \<and> Pair_Empty (req_Pair p) \<longrightarrow>
            serve HandlePrice sv r s = (\<lparr>status = Some 200, body = ''{}''\<rparr>, s))"
  using assms
  by (simp add: serve_def handlePrices_nothing_requested handlePrice_nothing_requested)

theorem C6_nothing_requested_witness:
  "serve HandlePrices stub_found (json_request body_no_pairs) world0 =
     (\<lparr>status = Some 200, body = ''{}''\<rparr>, world0) \<and>
   serve HandlePrices stub_found (json_request ''{}'') world0 =
     (\<lparr>status = Some 200, body = ''{}''\<rparr>, world0) \<and>
   serve HandlePrice stub_found (json_request ''{}'') world0 =
     (\<lparr>status = Some 200, body = ''{}''\<rparr>, world0)"
proof -
  have ct: "Header_Get (Header (json_request b)) ''Content-Type'' = ''application/json''" for b
    by (simp add: json_request_def Header_Get_def)
  note a = C6_nothing_requested [OF ct, where sv = stub_found and s = world0]
  show ?thesis
    using a [of body_no_pairs "\<lparr>req_Pairs = Some []\<rparr>"]
      a [of "''{}''" "\<lparr>req_Pairs = None\<rparr>" "\<lparr>req_Pair = \<lparr>Base = [], Quote = []\<rparr>\<rparr>"]
    by (simp add: stub_simps)
qed

text \<open>
  C7. On the single-pair handler, when the provider and the hook succeed and the
  prices hold no entry for the requested pair, the answer has the status 200 and the
  body \<^verbatim>\<open>{}\<close>.
\<close>

theorem C7_pair_absent_from_prices:
  assumes "Header_Get (Header r) ''Content-Type'' = ''application/json''"
    and "Decode_priceRequest sv (Body r) = Inr p"
    and "\<not> Pair_Empty (req_Pair p)"
    and "Provider_Prices sv [req_Pair p] (env s) = (Inr pm, e1)"
    and "Hook_Check sv pm e1 = (None, e2)"
    and "map_of pm (req_Pair p) = None"
  shows "fst (serve HandlePrice sv r s) = \<lparr>status = Some 200, body = ''{}''\<rparr>"
  using assms
  by (simp add: serve_def handlePrice_def call_Prices_def call_Check_def emit_def
      io_WriteString_new body_empty_def)

theorem C7_pair_absent_from_prices_witness:
  "map_of [(ETHUSD, tick_of ETHUSD)] BTCUSD = None \<and>
   fst (serve HandlePrice stub_absent (json_request body_BTCUSD_price) world0) =
     \<lparr>status = Some 200, body = ''{}''\<rparr>"
proof -
  have m: "map_of [(ETHUSD, tick_of ETHUSD)] (req_Pair \<lparr>req_Pair = BTCUSD\<rparr>) = None"
    by (simp add: BTCUSD_def ETHUSD_def)
  have "fst (serve HandlePrice stub_absent (json_request body_BTCUSD_price) world0) =
     \<lparr>status = Some 200, body = ''{}''\<rparr>"
    by (rule C7_pair_absent_from_prices [where p = "\<lparr>req_Pair = BTCUSD\<rparr>"
          and pm = "[(ETHUSD, tick_of ETHUSD)]" and ?e1.0 = 1 and ?e2.0 = 2, OF _ _ _ _ _ m])
       (simp_all add: stub_simps)
  with m show ?thesis by simp
qed

section \<open>Properties of the lifecycle\<close>

lemma run_preserves:
  assumes step: "\<And>a s s1. step a s = Some s1 \<Longrightarrow> P s \<Longrightarrow> P s1"
  shows "run step as s = Some s1 \<Longrightarrow> P s \<Longrightarrow> P s1"
proof (induction as arbitrary: s)
  case Nil
  then show ?case by simp
next
  case (Cons a as)
  then show ?case by (auto split: option.splits dest: step)
qed

lemma Cache_Start_started:
  "ctx (component s) \<noteq> None \<Longrightarrow>
   Cache_Start s c = (Some (errors_New ''service can be started only once''), s)"
  by (simp add: Cache_Start_def)

lemma HTTPAgent_Start_started:
  "ctx (component s) \<noteq> None \<Longrightarrow>
   HTTPAgent_Start s c = (Returned (Some (errors_New ''service can be started only once'')), s)"
  by (simp add: HTTPAgent_Start_def)

lemma Cache_Start_ok_ctx:
  "Cache_Start s c = (None, s1) \<Longrightarrow> ctx (component s1) = c \<and> c \<noteq> None"
  by (auto simp add: Cache_Start_def split: if_splits option.splits)

lemma initServer_frame:
  "routines (snd (initServer s)) = routines s \<and>
   waitCh (component (snd (initServer s))) = waitCh (component s) \<and>
   received (snd (initServer s)) = received s \<and>
   ctx (component (snd (initServer s))) = ctx (component s) \<and>
   crashed (snd (initServer s)) = crashed s \<and>
   cancelled (snd (initServer s)) = cancelled s"
  by (simp add: initServer_def HandleFunc_def log_def Let_def split: option.splits)

lemma initServer_no_error: "initServer s \<noteq> (Returned (Some err), s1)"
  by (simp add: initServer_def HandleFunc_def log_def Let_def split: option.splits)

lemma HTTPAgent_Start_ok_ctx:
  "HTTPAgent_Start s c = (Returned None, s1) \<Longrightarrow> ctx (component s1) = c \<and> c \<noteq> None"
  using initServer_frame [of "(log Debug ''Starting'' s)\<lparr>component := (component s)\<lparr>ctx := c\<rparr>\<rparr>"]
  by (auto simp add: HTTPAgent_Start_def log_def
      split: if_splits option.splits prod.splits outcome.splits)

lemma cache_step_ctx:
  "cache_step sv a s = Some s1 \<Longrightarrow> ctx (component s) \<noteq> None \<Longrightarrow> ctx (component s1) \<noteq> None"
  by (cases a)
    (auto simp add: cache_step_def Cache_Start_def Cache_contextCancelHandler_def
       Cache_receive_def log_def Let_def split: if_splits option.splits)

lemma agent_step_ctx:
  "agent_step sv a s = Some s1 \<Longrightarrow> ctx (component s) \<noteq> None \<Longrightarrow> ctx (component s1) \<noteq> None"
  by (cases a)
    (auto simp add: agent_step_def HTTPAgent_Start_def HTTPAgent_contextCancelHandler_def
       HTTPAgent_contextCancelHandler_sent_def HTTPAgent_receive_def server_begins_def
       server_returns_def log_def Let_def split: if_splits option.splits prod.splits)

lemmas cache_eval =
  cache_step_def Cache_Start_def Cache_contextCancelHandler_def Cache_receive_def close_chan_def
  log_def Let_def new_process_def New_def make_chan_def stub_def update_def call_Price_def
  emit_def ctx_Done_def tick_of_def BTCUSD_def AB_def CD_def STALEUSD_def Wait_def cache0_def
  stub_CD_fails_def stub_found_def

lemmas agent_eval =
  agent_step_def HTTPAgent_Start_def initServer_def HandleFunc_def
  HTTPAgent_contextCancelHandler_def HTTPAgent_contextCancelHandler_sent_def
  HTTPAgent_receive_def server_begins_def server_returns_def close_chan_def
  log_def Let_def new_process_def NewHTTPAgent_def make_chan_def stub_def emit_def ctx_Done_def
  Wait_def agent0_def stub_found_def

text \<open>
  C1. Once \<^verbatim>\<open>Start\<close> has returned nil for a context, then after any steps of the process
  every call of \<^verbatim>\<open>Start\<close>, with any argument, returns the error \<^verbatim>\<open>service can be started
  only once\<close> and leaves the whole process as it is: the stored context, the channel,
  the goroutines, the trace. This holds for the cache and for the agent.
\<close>

theorem C1_second_Start_fails:
  "(Cache_Start g (Some c) = (None, g1) \<and> run (cache_step sv) as g1 = Some g2 \<longrightarrow>
      Cache_Start g2 c' = (Some (errors_New ''service can be started only once''), g2)) \<and>
   (HTTPAgent_Start h (Some c) = (Returned None, h1) \<and> run (agent_step sv) bs h1 = Some h2 \<longrightarrow>
      HTTPAgent_Start h2 c' =
        (Returned (Some (errors_New ''service can be started only once'')), h2))"
proof (intro conjI impI)
  assume a: "Cache_Start g (Some c) = (None, g1) \<and> run (cache_step sv) as g1 = Some g2"
  then have "ctx (component g1) \<noteq> None" using Cache_Start_ok_ctx by fastforce
  with a have "ctx (component g2) \<noteq> None"
    using run_preserves [of "cache_step sv" "\<lambda>s. ctx (component s) \<noteq> None" as g1 g2]
      cache_step_ctx by blast
  then show "Cache_Start g2 c' = (Some (errors_New ''service can be started only once''), g2)"
    by (rule Cache_Start_started)
next
  assume a: "HTTPAgent_Start h (Some c) = (Returned None, h1) \<and>
    run (agent_step sv) bs h1 = Some h2"
  then have "ctx (component h1) \<noteq> None" using HTTPAgent_Start_ok_ctx by fastforce
  with a have "ctx (component h2) \<noteq> None"
    using run_preserves [of "agent_step sv" "\<lambda>s. ctx (component s) \<noteq> None" bs h1 h2]
      agent_step_ctx by blast
  then show "HTTPAgent_Start h2 c' =
      (Returned (Some (errors_New ''service can be started only once'')), h2)"
    by (rule HTTPAgent_Start_started)
qed

theorem C1_second_Start_fails_witness:
  "\<exists>g1 g2 h1 h2.
     Cache_Start cache0 (Some (Ctx 1)) = (None, g1) \<and>
     run (cache_step stub_CD_fails) [Tick, Cancel (Ctx 1), Handler_Done] g1 = Some g2 \<and>
     Cache_Start g2 (Some (Ctx 2)) = (Some (errors_New ''service can be started only once''), g2) \<and>
     HTTPAgent_Start agent0 (Some (Ctx 1)) = (Returned None, h1) \<and>
     run (agent_step stub_found) [Server_Begins, Cancel (Ctx 1)] h1 = Some h2 \<and>
     HTTPAgent_Start h2 (Some (Ctx 2)) =
       (Returned (Some (errors_New ''service can be started only once'')), h2)"
proof -
  let ?g1 = "snd (Cache_Start cache0 (Some (Ctx 1)))"
  let ?h1 = "snd (HTTPAgent_Start agent0 (Some (Ctx 1)))"
  have a: "Cache_Start cache0 (Some (Ctx 1)) = (None, ?g1)"
    by (simp add: Cache_Start_def cache0_def new_process_def New_def)
  obtain g2 where b: "run (cache_step stub_CD_fails) [Tick, Cancel (Ctx 1), Handler_Done] ?g1 = Some g2"
    by (simp add: cache_eval)
  have c: "HTTPAgent_Start agent0 (Some (Ctx 1)) = (Returned None, ?h1)"
    by (simp add: agent_eval)
  obtain h2 where d: "run (agent_step stub_found) [Server_Begins, Cancel (Ctx 1)] ?h1 = Some h2"
    by (simp add: agent_eval)
  note t = C1_second_Start_fails [where c = "Ctx 1" and c' = "Some (Ctx 2)"]
  from t [where g = cache0 and ?g1.0 = ?g1 and sv = stub_CD_fails and ?g2.0 = g2] a b
  have e: "Cache_Start g2 (Some (Ctx 2)) = (Some (errors_New ''service can be started only once''), g2)"
    by blast
  from t [where h = agent0 and ?h1.0 = ?h1 and sv = stub_found and ?h2.0 = h2] c d
  have f: "HTTPAgent_Start h2 (Some (Ctx 2)) =
       (Returned (Some (errors_New ''service can be started only once'')), h2)"
    by blast
  from a b c d e f show ?thesis by blast
qed





text \<open>
  A pattern that is registered already makes \<^verbatim>\<open>Start\<close> of an agent panic, with the
  context stored.
\<close>

lemma HTTPAgent_Start_pattern_registered:
  "ctx (component s) = None \<Longrightarrow> ''/'' \<in> set (map fst (mux s)) \<Longrightarrow>
   fst (HTTPAgent_Start s (Some c)) = Panicked \<and>
   ctx (component (snd (HTTPAgent_Start s (Some c)))) = Some c"
  by (simp add: HTTPAgent_Start_def initServer_def HandleFunc_def log_def Let_def)




section \<open>Properties of the polling cache\<close>





lemma cache_step_prices:
  "cache_step sv a s = Some s1 \<Longrightarrow> prices (component s1) = prices (component s)"
  by (cases a)
    (auto simp add: cache_step_def Cache_Start_def Cache_contextCancelHandler_def
       Cache_receive_def close_chan_def log_def Let_def split: if_splits option.splits)

text \<open>
  No step of the cache writes the \<^verbatim>\<open>prices\<close> of the \<^verbatim>\<open>Cache\<close>: in every state that a
  cache made by \<^verbatim>\<open>New\<close> reaches, the map has no entry.
\<close>

lemma Cache_prices_stay_empty:
  assumes "run (cache_step sv) as (new_process (New ps) e) = Some s"
  shows "prices (component s) = Map.empty"
proof -
  have "prices (component (new_process (New ps) e)) = Map.empty"
    by (simp add: new_process_def New_def)
  with assms show ?thesis
    using run_preserves [of "cache_step sv" "\<lambda>s. prices (component s) = Map.empty" as _ s]
      cache_step_prices by metis
qed

text \<open>
  C2, on the code. A cache for the pair \<^verbatim>\<open>BTC/USD\<close> is started and takes a tick; the
  provider answers with a tick that carries no error text, and the update is logged.
  The \<^verbatim>\<open>prices\<close> of the cache hold no entry for the pair afterwards.
\<close>

theorem C2_fetched_tick_is_not_stored:
  "map_option (trace \<circ> world)
     (run (cache_step stub_found) [Start_called (Some (Ctx 1)), Tick]
        (new_process (New [BTCUSD]) 0)) =
     Some [Log Debug ''Starting'' None None, Ticker_Start (Ctx 1),
           Price_called BTCUSD (Inr (tick_of BTCUSD)),
           Log Info ''Price update'' (Some BTCUSD) None] \<and>
   p_Error (tick_of BTCUSD) = [] \<and>
   map_option (\<lambda>s. prices (component s) BTCUSD)
     (run (cache_step stub_found) [Start_called (Some (Ctx 1)), Tick]
        (new_process (New [BTCUSD]) 0)) = Some None"
  by (simp add: cache_eval)

lemma cache_step_only_closed:
  "cache_step sv a s = Some s1 \<Longrightarrow> only_closed s \<Longrightarrow> only_closed s1"
  by (cases a)
    (auto simp add: only_closed_def cache_step_def Cache_Start_def Cache_contextCancelHandler_def
       Cache_receive_def close_chan_def log_def Let_def split: if_splits option.splits)

text \<open>
  C10. In every state that a cache made by \<^verbatim>\<open>New\<close> reaches, whatever the schedule and
  whatever the provider answered, no value has gone through the channel that \<^verbatim>\<open>Wait\<close>
  returns, and every receiver on it got nil, from the closed channel.
\<close>

theorem C10_cache_wait_is_only_closed:
  assumes "run (cache_step sv) as (new_process (New ps) e) = Some s"
  shows "sent (Wait (component s)) = [] \<and> (\<forall>r \<in> set (received s). r = (None, False))"
proof -
  have "only_closed (new_process (New ps) e)"
    by (simp add: only_closed_def new_process_def New_def make_chan_def)
  with assms have "only_closed s"
    using run_preserves [of "cache_step sv" only_closed as _ s] cache_step_only_closed by blast
  then show ?thesis by (simp add: only_closed_def Wait_def)
qed

theorem C10_cache_wait_is_only_closed_witness:
  "\<exists>s. run (cache_step stub_CD_fails)
          [Start_called (Some (Ctx 1)), Tick, Tick, Cancel (Ctx 1), Handler_Done, Receive, Receive]
          (new_process (New [AB, CD]) 0) = Some s \<and>
        sent (Wait (component s)) = [] \<and> received s = [(None, False), (None, False)]"
proof -
  obtain s where h: "run (cache_step stub_CD_fails)
          [Start_called (Some (Ctx 1)), Tick, Tick, Cancel (Ctx 1), Handler_Done, Receive, Receive]
          (new_process (New [AB, CD]) 0) = Some s"
    and r: "received s = [(None, False), (None, False)]"
    by (simp add: cache_eval)
  from C10_cache_wait_is_only_closed [OF h] r h show ?thesis by blast
qed

section \<open>Properties of the completion channel\<close>

lemma handlers_remove1_other: "\<not> is_handler r \<Longrightarrow> handlers (remove1 r rs) = handlers rs"
  by (induction rs) (auto simp add: handlers_def)

lemma handlers_remove1: "handlers rs = [r] \<Longrightarrow> handlers (remove1 r rs) = []"
  by (induction rs) (auto simp add: handlers_def handlers_remove1_other [unfolded handlers_def] split: if_splits)

lemma handlers_append: "handlers (rs @ rs') = handlers rs @ handlers rs'"
  by (simp add: handlers_def)

lemma handlers_mem: "r \<in> set rs \<Longrightarrow> is_handler r \<Longrightarrow> r \<in> set (handlers rs)"
  by (simp add: handlers_def)

lemma sender_handlers: "sender rs = sender (handlers rs)"
  by (induction rs rule: sender.induct) (simp_all add: handlers_def)

lemma sender_Some: "handlers rs = [ContextCancelHandler_send v] \<Longrightarrow> sender rs = Some v"
  using sender_handlers [of rs] by simp

lemma sender_None1: "handlers rs = [ContextCancelHandler] \<Longrightarrow> sender rs = None"
  using sender_handlers [of rs] by simp

lemma sender_None0: "handlers rs = [] \<Longrightarrow> sender rs = None"
  using sender_handlers [of rs] by simp

lemma agent_inv_Start: "agent_inv s \<Longrightarrow> agent_inv (snd (HTTPAgent_Start s c))"
proof (cases "ctx (component s) = None \<and> c \<noteq> None")
  case False
  assume "agent_inv s"
  with False show ?thesis by (auto simp add: HTTPAgent_Start_def)
next
  case True
  assume inv: "agent_inv s"
  from True obtain x where c: "c = Some x" by auto
  let ?s0 = "(log Debug ''Starting'' s)\<lparr>component := (component s)\<lparr>ctx := Some x\<rparr>\<rparr>"
  obtain r s1 where i: "initServer ?s0 = (r, s1)" by (cases "initServer ?s0")
  have fr: "routines s1 = routines s" "waitCh (component s1) = waitCh (component s)"
    "received s1 = received s" "ctx (component s1) = Some x" "crashed s1 = crashed s"
    using initServer_frame [of ?s0] i by (simp_all add: log_def)
  show ?thesis
  proof (cases "crashed s")
    case True
    then show ?thesis using True fr i c \<open>ctx (component s) = None \<and> c \<noteq> None\<close>
      by (auto simp add: HTTPAgent_Start_def agent_inv_def split: outcome.splits option.splits)
  next
    case False
    with inv True have "handlers (routines s) = []" "waitCh (component s) = make_chan" "received s = []"
      by (auto simp add: agent_inv_def)
    then show ?thesis using fr i c True initServer_no_error [of ?s0 _ s1]
      by (auto simp add: HTTPAgent_Start_def agent_inv_def handlers_append handlers_def
          split: outcome.splits option.splits)
  qed
qed

lemma agent_inv_Handler_Done:
  assumes "agent_inv s" "\<not> crashed s" "ContextCancelHandler \<in> set (routines s)"
  shows "agent_inv (HTTPAgent_contextCancelHandler sv s)"
proof -
  from assms(3) have m: "ContextCancelHandler \<in> set (handlers (routines s))" by (simp add: handlers_mem)
  with assms(1,2) obtain c where c: "ctx (component s) = Some c"
    and h: "handlers (routines s) = [ContextCancelHandler]"
    and w: "waitCh (component s) = make_chan" and r: "received s = []"
    by (auto simp add: agent_inv_def split: option.splits)
  obtain err e where cl: "Server_Close sv (env (world s)) = (err, e)" by (cases "Server_Close sv (env (world s))")
  show ?thesis using c h w r cl handlers_remove1 [OF h]
    by (simp add: HTTPAgent_contextCancelHandler_def agent_inv_def Let_def make_chan_def handlers_append)
       (simp add: handlers_def)
qed

lemma agent_inv_Receive:
  assumes "agent_inv s" "\<not> crashed s" "HTTPAgent_receive s = Some s1"
  shows "agent_inv s1"
proof (cases "closed (waitCh (component s))")
  case True
  with assms(1,2) obtain c v n where "ctx (component s) = Some c" "handlers (routines s) = []"
    "waitCh (component s) = \<lparr>closed = True, sent = [v]\<rparr>"
    "received s = (v, True) # replicate n (None, False)"
    by (auto simp add: agent_inv_def make_chan_def split: option.splits)
  moreover from True assms(3) have "s1 = s\<lparr>received := received s @ [(None, False)]\<rparr>"
    by (simp add: HTTPAgent_receive_def)
  ultimately show ?thesis
    by (auto simp add: agent_inv_def replicate_append_same intro: exI [of _ "Suc n"])
next
  case False
  with assms(3) obtain v where sd: "sender (routines s) = Some v"
    and s1: "s1 = HTTPAgent_contextCancelHandler_sent v
        (s\<lparr>component := (component s)\<lparr>waitCh := (waitCh (component s))\<lparr>sent := sent (waitCh (component s)) @ [v]\<rparr>\<rparr>,
           received := received s @ [(v, True)]\<rparr>)"
    by (auto simp add: HTTPAgent_receive_def split: option.splits)
  from sd assms(1,2) obtain c where c: "ctx (component s) = Some c"
    and h: "handlers (routines s) = [ContextCancelHandler_send v]"
    and w: "waitCh (component s) = make_chan" and r: "received s = []"
    using sender_None0 [of "routines s"] sender_None1 [of "routines s"] sender_Some [of "routines s"] False
    by (auto simp add: agent_inv_def split: option.splits)
  show ?thesis unfolding s1 using c h w r handlers_remove1 [OF h]
    by (auto simp add: HTTPAgent_contextCancelHandler_sent_def agent_inv_def Let_def make_chan_def
        close_chan_def log_def intro: exI [of _ 0])
qed

lemma agent_inv_frame:
  assumes "agent_inv s"
    and "ctx (component s1) = ctx (component s)" "waitCh (component s1) = waitCh (component s)"
    and "received s1 = received s" "handlers (routines s1) = handlers (routines s)"
    and "crashed s1 = crashed s"
  shows "agent_inv s1"
  using assms by (simp add: agent_inv_def cong: option.case_cong)

lemma agent_step_inv:
  assumes "agent_step sv a s = Some s1" "agent_inv s"
  shows "agent_inv s1"
proof -
  from assms(1) have nc: "\<not> crashed s" by (auto simp add: agent_step_def split: if_splits)
  show ?thesis
  proof (cases a)
    case (Start_called c)
    with assms nc show ?thesis by (auto simp add: agent_step_def agent_inv_Start)
  next
    case (Cancel c)
    with assms nc show ?thesis by (auto simp add: agent_step_def elim!: agent_inv_frame)
  next
    case Handler_Done
    with assms nc show ?thesis by (auto simp add: agent_step_def agent_inv_Handler_Done split: if_splits)
  next
    case Receive
    with assms nc show ?thesis by (auto simp add: agent_step_def agent_inv_Receive)
  next
    case Server_Begins
    with assms nc show ?thesis
      by (auto simp add: agent_step_def server_begins_def log_def Let_def handlers_append handlers_remove1_other
          split: if_splits elim!: agent_inv_frame) (simp add: handlers_def)
  next
    case Server_Returns
    with assms nc show ?thesis
      by (auto simp add: agent_step_def server_returns_def Let_def handlers_remove1_other
          split: if_splits prod.splits elim!: agent_inv_frame)
  next
    case (Serve h r)
    with assms nc show ?thesis
      by (auto simp add: agent_step_def split: if_splits prod.splits elim!: agent_inv_frame)
  qed (use assms nc in \<open>auto simp add: agent_step_def\<close>)
qed

lemma HTTPAgent_Start_fresh_mux:
  "ctx (component s) = None \<Longrightarrow> mux s = [] \<Longrightarrow> \<not> crashed s \<Longrightarrow>
   \<not> crashed (snd (HTTPAgent_Start s c)) \<and>
   (ctx (component (snd (HTTPAgent_Start s c))) = None \<longrightarrow> mux (snd (HTTPAgent_Start s c)) = [])"
  by (cases c) (simp_all add: HTTPAgent_Start_def initServer_def HandleFunc_def log_def Let_def)

lemma agent_step_sound:
  assumes "agent_step sv a s = Some s1" "agent_inv s" "agent_sound s"
  shows "agent_sound s1"
proof (cases a)
  case (Start_called c)
  show ?thesis
  proof (cases "ctx (component s) = None")
    case True
    with assms Start_called HTTPAgent_Start_fresh_mux [of s c] show ?thesis
      by (auto simp add: agent_step_def agent_sound_def)
  next
    case False
    with assms Start_called show ?thesis
      by (auto simp add: agent_step_def agent_sound_def HTTPAgent_Start_def)
  qed
next
  case Handler_Done
  from assms Handler_Done have m: "ContextCancelHandler \<in> set (handlers (routines s))" and nc: "\<not> crashed s"
    by (auto simp add: agent_step_def agent_sound_def handlers_mem split: if_splits)
  with assms(2) have "waitCh (component s) = make_chan" "ctx (component s) \<noteq> None"
    by (auto simp add: agent_inv_def split: option.splits)
  with assms Handler_Done show ?thesis
    by (auto simp add: agent_step_def agent_sound_def HTTPAgent_contextCancelHandler_def Let_def
        make_chan_def split: if_splits prod.splits)
next
  case Receive
  with assms show ?thesis
    by (auto simp add: agent_step_def agent_sound_def HTTPAgent_receive_def
        HTTPAgent_contextCancelHandler_sent_def close_chan_def log_def Let_def
        split: if_splits option.splits)
qed (use assms in \<open>auto simp add: agent_step_def agent_sound_def server_begins_def server_returns_def
      log_def Let_def split: if_splits prod.splits\<close>)

lemma emit_mono: "set (trace s) \<subseteq> set (trace (emit ev s))"
  by (auto simp add: emit_def)

lemma call_Prices_mono: "set (trace s) \<subseteq> set (trace (snd (call_Prices sv ps s)))"
  by (auto simp add: call_Prices_def emit_def split: prod.splits)

lemma call_Check_mono: "set (trace s) \<subseteq> set (trace (snd (call_Check sv pm s)))"
  by (auto simp add: call_Check_def emit_def split: prod.splits)

lemma call_json_Marshal_mono: "set (trace s) \<subseteq> set (trace (snd (call_json_Marshal sv j s)))"
  by (auto simp add: call_json_Marshal_def emit_def)

lemma call_Write_mono:
  "set (trace (snd ws)) \<subseteq> set (trace (snd (snd (call_Write sv it ws))))"
  by (cases ws) (auto simp add: call_Write_def emit_def split: prod.splits)

lemma call_Flush_mono:
  "set (trace (snd ws)) \<subseteq> set (trace (snd (snd (call_Flush sv ws))))"
  by (cases ws) (auto simp add: call_Flush_def emit_def split: prod.splits)

lemma write_prices_mono:
  "set (trace (snd ws)) \<subseteq> set (trace (snd (write_prices sv ps ws)))"
proof (induction ps arbitrary: ws)
  case Nil
  then show ?case by simp
next
  case (Cons p ps)
  obtain r1 ws1 where c1: "call_Write sv (Item_Price p) ws = (r1, ws1)"
    by (cases "call_Write sv (Item_Price p) ws")
  have m1: "set (trace (snd ws)) \<subseteq> set (trace (snd ws1))"
    using call_Write_mono [of ws sv "Item_Price p"] c1 by simp
  show ?case
  proof (cases r1)
    case None
    with c1 have "write_prices sv (p # ps) ws = write_prices sv ps ws1" by simp
    with m1 Cons.IH [of ws1] show ?thesis by auto
  next
    case (Some mErr)
    obtain r2 ws2 where c2: "call_Write sv (Item_Error mErr) ws1 = (r2, ws2)"
      by (cases "call_Write sv (Item_Error mErr) ws1")
    have m2: "set (trace (snd ws1)) \<subseteq> set (trace (snd ws2))"
      using call_Write_mono [of ws1 sv "Item_Error mErr"] c2 by simp
    from Some c1 c2 have "write_prices sv (p # ps) ws = write_prices sv ps ws2" by simp
    with m1 m2 Cons.IH [of ws2] show ?thesis by auto
  qed
qed

lemma handlePrice_mono: "set (trace s) \<subseteq> set (trace (snd (handlePrice sv w r s)))"
proof -
  { fix p s1 pm
    assume a: "call_Prices sv [req_Pair p] s = (Inr pm, s1)"
    obtain c s2 where ch: "call_Check sv pm s1 = (c, s2)" by (cases "call_Check sv pm s1")
    have ma: "\<exists>m s3. call_json_Marshal sv (jsonPriceFromGoferPrice price) s2 = (m, s3) \<and>
        set (trace s2) \<subseteq> set (trace s3)" for price
      using call_json_Marshal_mono [of s2 sv] by (metis prod.collapse)
    have "set (trace s) \<subseteq> set (trace s1)" using call_Prices_mono [of s sv "[req_Pair p]"] a by simp
    moreover have "set (trace s1) \<subseteq> set (trace s2)" using call_Check_mono [of s1 sv pm] ch by simp
    ultimately have s2: "set (trace s) \<subseteq> set (trace s2)" by blast
    have "set (trace s) \<subseteq> set (trace (snd
       (case call_Check sv pm s1 of
          (Some err, s2) \<Rightarrow>
            (io_WriteString w body_failed_check,
             emit (Log Error ''failed to check prices: %v'' None (Some err)) s2)
        | (None, s2) \<Rightarrow>
            (case map_of pm (req_Pair p) of
               None \<Rightarrow>
                 (io_WriteString w body_empty,
                  emit (Log Info ''Invalid price response for %s: %v'' (Some (req_Pair p)) None) s2)
             | Some price \<Rightarrow>
                 (case call_json_Marshal sv (jsonPriceFromGoferPrice price) s2 of
                    (Inl err, s3) \<Rightarrow>
                      (io_WriteString w body_empty,
                       emit (Log Info ''Failed to get price for %s: %v'' (Some (req_Pair p)) (Some err)) s3)
                  | (Inr b, s3) \<Rightarrow> (io_WriteString w b, s3))))))"
    proof (cases c)
      case (Some err)
      with ch s2 emit_mono show ?thesis by (simp add: emit_def) auto
    next
      case None
      show ?thesis
      proof (cases "map_of pm (req_Pair p)")
        case None
        with \<open>c = None\<close> ch s2 show ?thesis by (simp add: emit_def) auto
      next
        case (Some price)
        from ma [of price] obtain m s3 where
          mm: "call_json_Marshal sv (jsonPriceFromGoferPrice price) s2 = (m, s3)"
          and ms: "set (trace s2) \<subseteq> set (trace s3)" by blast
        with Some \<open>c = None\<close> ch s2 show ?thesis
          by (cases m) (auto simp add: emit_def)
      qed
    qed }
  note inner = this
  show ?thesis
  proof (cases "Header_Get (Header r) ''Content-Type'' \<noteq> ''application/json''")
    case True
    then show ?thesis by (simp add: handlePrice_def)
  next
    case False
    show ?thesis
    proof (cases "Decode_priceRequest sv (Body r)")
      case (Inl err)
      with False show ?thesis by (simp add: handlePrice_def)
    next
      case (Inr p)
      show ?thesis
      proof (cases "Pair_Empty (req_Pair p)")
        case True
        with False Inr show ?thesis by (simp add: handlePrice_def)
      next
        case ne: False
        obtain g s1 where cp: "call_Prices sv [req_Pair p] s = (g, s1)"
          by (cases "call_Prices sv [req_Pair p] s")
        have s1: "set (trace s) \<subseteq> set (trace s1)"
          using call_Prices_mono [of s sv "[req_Pair p]"] cp by simp
        show ?thesis
        proof (cases g)
          case (Inl err)
          with False Inr ne cp s1 show ?thesis by (simp add: handlePrice_def emit_def) auto
        next
          case (Inr pm)
          with inner [of p pm s1] cp \<open>Decode_priceRequest sv (Body r) = Inr p\<close> False ne
          show ?thesis by (simp add: handlePrice_def)
        qed
      qed
    qed
  qed
qed

lemma handlePrices_mono: "set (trace s) \<subseteq> set (trace (snd (handlePrices sv w r s)))"
proof (cases "Header_Get (Header r) ''Content-Type'' \<noteq> ''application/json''")
  case True
  then show ?thesis by (simp add: handlePrices_def)
next
  case False
  show ?thesis
  proof (cases "Decode_pricesRequest sv (Body r)")
    case (Inl err)
    with False show ?thesis by (simp add: handlePrices_def)
  next
    case (Inr p)
    show ?thesis
    proof (cases "req_Pairs p = None \<or> len (req_Pairs p) = 0")
      case True
      with False Inr show ?thesis by (simp add: handlePrices_def)
    next
      case ne: False
      obtain g s1 where cp: "call_Prices sv (elems (req_Pairs p)) s = (g, s1)"
        by (cases "call_Prices sv (elems (req_Pairs p)) s")
      have s1: "set (trace s) \<subseteq> set (trace s1)"
        using call_Prices_mono [of s sv "elems (req_Pairs p)"] cp by simp
      show ?thesis
      proof (cases g)
        case (Inl err)
        with False Inr ne cp s1 show ?thesis by (simp add: handlePrices_def emit_def) auto
      next
        case (Inr pm)
        obtain c s2 where ch: "call_Check sv pm s1 = (c, s2)" by (cases "call_Check sv pm s1")
        have s2: "set (trace s) \<subseteq> set (trace s2)"
          using call_Check_mono [of s1 sv pm] ch s1 by auto
        show ?thesis
        proof (cases c)
          case (Some err)
          with False \<open>Decode_pricesRequest sv (Body r) = Inr p\<close> ne cp Inr ch s2 show ?thesis
            by (simp add: handlePrices_def emit_def) auto
        next
          case None
          obtain f w3 s3 where fl: "call_Flush sv (write_prices sv (map snd pm) (w, s2)) = (f, w3, s3)"
            by (cases "call_Flush sv (write_prices sv (map snd pm) (w, s2))")
          have "set (trace s2) \<subseteq> set (trace (snd (write_prices sv (map snd pm) (w, s2))))"
            using write_prices_mono [of "(w, s2)" sv "map snd pm"] by simp
          moreover have "set (trace (snd (write_prices sv (map snd pm) (w, s2)))) \<subseteq> set (trace s3)"
            using call_Flush_mono [of "write_prices sv (map snd pm) (w, s2)" sv] fl by simp
          ultimately have s3: "set (trace s) \<subseteq> set (trace s3)" using s2 by blast
          with None False \<open>Decode_pricesRequest sv (Body r) = Inr p\<close> ne cp Inr ch fl show ?thesis
            by (cases f) (auto simp add: handlePrices_def emit_def)
        qed
      qed
    qed
  qed
qed

lemma serve_mono: "set (trace s) \<subseteq> set (trace (snd (serve h sv r s)))"
  by (cases h) (simp_all add: serve_def handlePrice_mono handlePrices_mono)

lemma initServer_mono: "set (trace (world s)) \<subseteq> set (trace (world (snd (initServer s))))"
  by (auto simp add: initServer_def HandleFunc_def log_def emit_def Let_def split: option.splits)

lemma HTTPAgent_Start_mono:
  "set (trace (world s)) \<subseteq> set (trace (world (snd (HTTPAgent_Start s c))))"
proof (cases "ctx (component s) = None \<and> c \<noteq> None")
  case False
  then show ?thesis by (auto simp add: HTTPAgent_Start_def)
next
  case True
  then obtain x where c: "c = Some x" by auto
  let ?s0 = "(log Debug ''Starting'' s)\<lparr>component := (component s)\<lparr>ctx := Some x\<rparr>\<rparr>"
  have "set (trace (world s)) \<subseteq> set (trace (world ?s0))" by (auto simp add: log_def emit_def)
  with initServer_mono [of ?s0] have "set (trace (world s)) \<subseteq> set (trace (world (snd (initServer ?s0))))"
    by blast
  with True c show ?thesis
    by (auto simp add: HTTPAgent_Start_def split: prod.splits outcome.splits option.splits)
qed

lemma agent_step_mono:
  assumes "agent_step sv a s = Some s1"
  shows "set (trace (world s)) \<subseteq> set (trace (world s1))"
proof (cases a)
  case (Start_called c)
  with assms HTTPAgent_Start_mono [of s c] show ?thesis by (auto simp add: agent_step_def split: if_splits)
next
  case (Serve h r)
  with assms serve_mono [of "world s" h sv r] show ?thesis
    by (auto simp add: agent_step_def split: if_splits prod.splits)
qed (use assms in \<open>auto simp add: agent_step_def HTTPAgent_contextCancelHandler_def
      HTTPAgent_contextCancelHandler_sent_def HTTPAgent_receive_def server_begins_def
      server_returns_def close_chan_def log_def emit_def Let_def
      split: if_splits prod.splits option.splits\<close>)

lemma in_remove1D: "x \<in> set (remove1 y xs) \<Longrightarrow> x \<in> set xs"
  by (metis notin_set_remove1)

lemma sender_mem: "sender rs = Some v \<Longrightarrow> ContextCancelHandler_send v \<in> set rs"
  by (induction rs rule: sender.induct) auto

lemma HTTPAgent_Start_frame:
  "set (routines (snd (HTTPAgent_Start s c))) \<subseteq> set (routines s) \<union> {ServerRoutine, ContextCancelHandler} \<and>
   waitCh (component (snd (HTTPAgent_Start s c))) = waitCh (component s)"
proof (cases "ctx (component s) = None \<and> c \<noteq> None")
  case False
  then show ?thesis by (auto simp add: HTTPAgent_Start_def)
next
  case True
  then obtain x where c: "c = Some x" by auto
  let ?s0 = "(log Debug ''Starting'' s)\<lparr>component := (component s)\<lparr>ctx := Some x\<rparr>\<rparr>"
  from initServer_frame [of ?s0] have "routines (snd (initServer ?s0)) = routines s"
    "waitCh (component (snd (initServer ?s0))) = waitCh (component s)"
    by (simp_all add: log_def)
  with True c show ?thesis
    by (auto simp add: HTTPAgent_Start_def split: prod.splits outcome.splits option.splits)
qed

lemma agent_step_close_inv:
  assumes st: "agent_step sv a s = Some s1" and inv: "agent_close_inv s"
  shows "agent_close_inv s1"
proof -
  note mono = agent_step_mono [OF st]
  have r: "ContextCancelHandler_send v \<in> set (routines s) \<or> Close_called v \<in> set (trace (world s1))"
    if "ContextCancelHandler_send v \<in> set (routines s1)" for v
  proof (cases a)
    case (Start_called c)
    with st that HTTPAgent_Start_frame [of s c] show ?thesis
      by (auto simp add: agent_step_def split: if_splits)
  next
    case Receive
    with st that show ?thesis
      by (auto simp add: agent_step_def HTTPAgent_receive_def HTTPAgent_contextCancelHandler_sent_def
          close_chan_def log_def Let_def split: if_splits option.splits dest: in_remove1D)
  qed (use st that in \<open>auto simp add: agent_step_def HTTPAgent_contextCancelHandler_def
      server_begins_def server_returns_def log_def emit_def Let_def
      split: if_splits prod.splits option.splits dest: in_remove1D\<close>)
  have t: "v \<in> set (sent (waitCh (component s))) \<or> ContextCancelHandler_send v \<in> set (routines s)"
    if "v \<in> set (sent (waitCh (component s1)))" for v
  proof (cases a)
    case (Start_called c)
    with st that HTTPAgent_Start_frame [of s c] show ?thesis
      by (auto simp add: agent_step_def split: if_splits)
  next
    case Receive
    with st that show ?thesis
      by (auto simp add: agent_step_def HTTPAgent_receive_def HTTPAgent_contextCancelHandler_sent_def
          close_chan_def log_def Let_def split: if_splits option.splits dest: sender_mem)
  qed (use st that in \<open>auto simp add: agent_step_def HTTPAgent_contextCancelHandler_def
      server_begins_def server_returns_def log_def emit_def Let_def
      split: if_splits prod.splits option.splits\<close>)
  from inv mono r t show ?thesis unfolding agent_close_inv_def by blast
qed

lemma agent_reachable:
  assumes "run (agent_step sv) bs (new_process (NewHTTPAgent addr) e) = Some h"
  shows "agent_inv h \<and> agent_sound h \<and> agent_close_inv h"
proof -
  let ?P = "\<lambda>s. agent_inv s \<and> agent_sound s \<and> agent_close_inv s"
  have "?P (new_process (NewHTTPAgent addr) e)"
    by (simp add: agent_inv_def agent_sound_def agent_close_inv_def new_process_def
        NewHTTPAgent_def handlers_def make_chan_def)
  moreover have "?P s1" if "agent_step sv a s = Some s1" "?P s" for a s s1
    using that agent_step_inv agent_step_sound agent_step_close_inv by blast
  ultimately show ?thesis
    using assms run_preserves [of "agent_step sv" ?P bs _ h] by blast
qed

lemma agent_receive_closed:
  "\<not> crashed h \<Longrightarrow> closed (waitCh (component h)) \<Longrightarrow>
   agent_step sv Receive h = Some (h\<lparr>received := received h @ [(None, False)]\<rparr>)"
  by (simp add: agent_step_def HTTPAgent_receive_def)

lemma agent_progress:
  assumes "agent_inv h" "\<not> crashed h" "ctx_Done h" "\<not> closed (waitCh (component h))"
    and "agent_close_inv h"
  shows "\<exists>as h' v. set as \<subseteq> {Handler_Done, Receive} \<and> run (agent_step sv) as h = Some h' \<and>
           closed (waitCh (component h')) \<and> sent (waitCh (component h')) = [v] \<and>
           received h' = [(v, True)] \<and> Close_called v \<in> set (trace (world h')) \<and>
           (ContextCancelHandler \<in> set (routines h) \<longrightarrow>
              v = fst (Server_Close sv (env (world h))) \<and>
              env (world h') = snd (Server_Close sv (env (world h))) \<and>
              trace (world h') =
                trace (world h) @ [Close_called v, Log Debug ''Stopped'' None None])"
proof -
  from assms(3) obtain c where c: "ctx (component h) = Some c"
    by (auto simp add: ctx_Done_def split: option.splits)
  have send: "\<exists>h'. agent_step sv Receive k = Some h' \<and> closed (waitCh (component h')) \<and>
      sent (waitCh (component h')) = [v] \<and> received h' = [(v, True)] \<and>
      world h' = emit (Log Debug ''Stopped'' None None) (world k)"
    if "\<not> crashed k" "handlers (routines k) = [ContextCancelHandler_send v]"
      "waitCh (component k) = make_chan" "received k = []"
    for k :: "('a, HTTPAgent) process" and v
    using that sender_Some [of "routines k" v]
    by (simp add: agent_step_def HTTPAgent_receive_def make_chan_def
        HTTPAgent_contextCancelHandler_sent_def close_chan_def log_def Let_def)
  from assms(1,2,4) c consider
      (waiting) "handlers (routines h) = [ContextCancelHandler]"
        "waitCh (component h) = make_chan" "received h = []"
    | (sending) v where "handlers (routines h) = [ContextCancelHandler_send v]"
        "waitCh (component h) = make_chan" "received h = []"
    by (auto simp add: agent_inv_def)
  then show ?thesis
  proof cases
    case waiting
    have "ContextCancelHandler \<in> set (handlers (routines h))" using waiting by simp
    then have m: "ContextCancelHandler \<in> set (routines h)" by (simp add: handlers_def)
    obtain err e where cl: "Server_Close sv (env (world h)) = (err, e)"
      by (cases "Server_Close sv (env (world h))")
    let ?k = "HTTPAgent_contextCancelHandler sv h"
    have st: "agent_step sv Handler_Done h = Some ?k"
      using m assms(2,3) by (simp add: agent_step_def)
    have wk: "world ?k = emit (Close_called err) ((world h)\<lparr>env := e\<rparr>)"
      using waiting cl by (simp add: HTTPAgent_contextCancelHandler_def Let_def make_chan_def)
    have "\<not> crashed ?k" "handlers (routines ?k) = [ContextCancelHandler_send err]"
      "waitCh (component ?k) = make_chan" "received ?k = []"
      using waiting cl assms(2) handlers_remove1 [OF waiting(1)]
      by (simp_all add: HTTPAgent_contextCancelHandler_def Let_def make_chan_def handlers_append)
         (simp add: handlers_def)
    from send [OF this] obtain h' where h': "agent_step sv Receive ?k = Some h'"
      "closed (waitCh (component h'))" "sent (waitCh (component h')) = [err]"
      "received h' = [(err, True)]" "world h' = emit (Log Debug ''Stopped'' None None) (world ?k)"
      by blast
    with st have "run (agent_step sv) [Handler_Done, Receive] h = Some h'" by simp
    moreover from h'(5) wk have "env (world h') = e"
      "trace (world h') = trace (world h) @ [Close_called err, Log Debug ''Stopped'' None None]"
      by (simp_all add: emit_def)
    ultimately show ?thesis using h'(2,3,4) cl
      by (intro exI [of _ "[Handler_Done, Receive]"] exI [of _ h'] exI [of _ err]) simp
  next
    case sending
    have "ContextCancelHandler \<notin> set (routines h)"
    proof
      assume "ContextCancelHandler \<in> set (routines h)"
      then have "ContextCancelHandler \<in> set (handlers (routines h))" by (simp add: handlers_mem)
      with sending show False by simp
    qed
    moreover have "ContextCancelHandler_send v \<in> set (handlers (routines h))"
      using sending by simp
    then have "ContextCancelHandler_send v \<in> set (routines h)" by (simp add: handlers_def)
    with assms(5) have cc: "Close_called v \<in> set (trace (world h))"
      by (simp add: agent_close_inv_def)
    moreover from send [OF assms(2) sending] obtain h' where h': "agent_step sv Receive h = Some h'"
      "closed (waitCh (component h'))" "sent (waitCh (component h')) = [v]"
      "received h' = [(v, True)]" "world h' = emit (Log Debug ''Stopped'' None None) (world h)"
      by blast
    moreover from h'(5) cc have "Close_called v \<in> set (trace (world h'))" by (simp add: emit_def)
    ultimately show ?thesis by (intro exI [of _ "[Receive]"] exI [of _ h'] exI [of _ v]) simp
  qed
qed

lemma cache_inv_frame:
  assumes "cache_inv s"
    and "ctx (component s1) = ctx (component s)" "waitCh (component s1) = waitCh (component s)"
    and "handlers (routines s1) = handlers (routines s)" "crashed s1 = crashed s"
  shows "cache_inv s1"
  using assms by (simp add: cache_inv_def cong: option.case_cong)

lemma cache_inv_Handler_Done:
  assumes "cache_inv s" "ContextCancelHandler \<in> set (routines s)"
  shows "cache_inv (Cache_contextCancelHandler s) \<and>
    waitCh (component (Cache_contextCancelHandler s)) = \<lparr>closed = True, sent = []\<rparr>"
proof -
  from assms(2) have "ContextCancelHandler \<in> set (handlers (routines s))" by (simp add: handlers_mem)
  with assms(1) obtain c where c: "ctx (component s) = Some c"
    and h: "handlers (routines s) = [ContextCancelHandler]"
    and w: "waitCh (component s) = make_chan" and nc: "\<not> crashed s"
    by (auto simp add: cache_inv_def split: option.splits)
  show ?thesis using c h w nc handlers_remove1 [OF h]
    by (simp add: Cache_contextCancelHandler_def cache_inv_def Let_def make_chan_def close_chan_def log_def)
qed

lemma cache_step_inv:
  assumes "cache_step sv a s = Some s1" "cache_inv s"
  shows "cache_inv s1"
proof (cases a)
  case (Start_called c)
  with assms show ?thesis
    by (cases c)
      (auto simp add: cache_step_def Cache_Start_def cache_inv_def handlers_append handlers_def
        split: if_splits)
next
  case Handler_Done
  with assms show ?thesis by (auto simp add: cache_step_def cache_inv_Handler_Done split: if_splits)
next
  case Broadcaster_Done
  with assms show ?thesis
    by (auto simp add: cache_step_def handlers_remove1_other split: if_splits elim!: cache_inv_frame)
qed (use assms in \<open>auto simp add: cache_step_def Cache_receive_def split: if_splits elim!: cache_inv_frame\<close>)

lemma cache_reachable:
  assumes "run (cache_step sv) cs (new_process (New ps) e) = Some g"
  shows "cache_inv g"
proof -
  have "cache_inv (new_process (New ps) e)"
    by (simp add: cache_inv_def new_process_def New_def handlers_def)
  with assms show ?thesis
    using run_preserves [of "cache_step sv" cache_inv cs _ g] cache_step_inv by blast
qed

lemma cache_receive_closed:
  "\<not> crashed g \<Longrightarrow> closed (waitCh (component g)) \<Longrightarrow>
   cache_step sv Receive g = Some (g\<lparr>received := received g @ [(None, False)]\<rparr>)"
  by (simp add: cache_step_def Cache_receive_def)

lemma cache_progress:
  assumes "cache_inv g" "ctx_Done g" "\<not> closed (waitCh (component g))"
  shows "\<exists>g'. run (cache_step sv) [Handler_Done] g = Some g' \<and>
           closed (waitCh (component g')) \<and> sent (waitCh (component g')) = [] \<and>
           trace (world g') = trace (world g) @ [Log Debug ''Stopped'' None None] \<and>
           cache_step sv Receive g' = Some (g'\<lparr>received := received g' @ [(None, False)]\<rparr>)"
proof -
  from assms(2) obtain c where c: "ctx (component g) = Some c"
    by (auto simp add: ctx_Done_def split: option.splits)
  with assms(1,3) have h: "handlers (routines g) = [ContextCancelHandler]"
    and w: "waitCh (component g) = make_chan" and nc: "\<not> crashed g"
    by (auto simp add: cache_inv_def)
  have "ContextCancelHandler \<in> set (handlers (routines g))" using h by simp
  then have m: "ContextCancelHandler \<in> set (routines g)" by (simp add: handlers_def)
  let ?g' = "Cache_contextCancelHandler g"
  have r: "run (cache_step sv) [Handler_Done] g = Some ?g'"
    using m nc assms(2) by (simp add: cache_step_def)
  from cache_inv_Handler_Done [OF assms(1) m] have i: "cache_inv ?g'"
    and cl: "waitCh (component ?g') = \<lparr>closed = True, sent = []\<rparr>" by simp_all
  from i have nc': "\<not> crashed ?g'" by (simp add: cache_inv_def)
  have t: "trace (world ?g') = trace (world g) @ [Log Debug ''Stopped'' None None]"
    using w by (simp add: Cache_contextCancelHandler_def Let_def make_chan_def close_chan_def
        log_def emit_def)
  from cache_receive_closed [OF nc', of sv] cl
  have "cache_step sv Receive ?g' = Some (?g'\<lparr>received := received ?g' @ [(None, False)]\<rparr>)"
    by simp
  with r cl t show ?thesis by simp
qed

text \<open>
  C8, as amended. The agent, in every state that an agent made by \<^verbatim>\<open>NewHTTPAgent\<close>
  reaches, whatever came before: no panic has happened; at most one value has gone
  through the channel that \<^verbatim>\<open>Wait\<close> returns, and it is the result of a call of
  \<^verbatim>\<open>server.Close\<close>; when the channel is closed, one value has gone through it, to the
  first receiver, every later receiver got nil, and a further receive gives nil at
  once. When the stored context is cancelled and the channel is not closed yet, the
  cancel handler and one receiver bring the channel to be closed with one value gone
  through it, to that receiver; when the handler had not yet passed the cancellation,
  it calls \<^verbatim>\<open>server.Close\<close> on the way, the value is what the call returned, and the
  trace grows by that call and the line \<^verbatim>\<open>Stopped\<close>.
  The cache, in every state that a cache made by \<^verbatim>\<open>New\<close> reaches: no panic has
  happened; no value has gone through the channel; every receiver got nil from the
  closed channel; when the channel is closed, a receive gives nil at once; and when the
  stored context is cancelled and the channel is not closed yet, the cancel handler
  logs \<^verbatim>\<open>Stopped\<close> and closes the channel, with no value gone through it, and a receive
  then gives nil.
\<close>

theorem C8_wait_after_cancel:
  "(run (agent_step sv) bs (new_process (NewHTTPAgent addr) e) = Some h \<longrightarrow>
      \<not> crashed h \<and> length (sent (Wait (component h))) \<le> 1 \<and>
      (\<forall>v \<in> set (sent (Wait (component h))). Close_called v \<in> set (trace (world h))) \<and>
      (closed (Wait (component h)) \<longrightarrow>
         (\<exists>v n. sent (Wait (component h)) = [v] \<and>
            received h = (v, True) # replicate n (None, False)) \<and>
         agent_step sv Receive h = Some (h\<lparr>received := received h @ [(None, False)]\<rparr>)) \<and>
      (ctx_Done h \<and> \<not> closed (Wait (component h)) \<longrightarrow>
         (\<exists>as h' v. set as \<subseteq> {Handler_Done, Receive} \<and>
            run (agent_step sv) as h = Some h' \<and>
            closed (Wait (component h')) \<and> sent (Wait (component h')) = [v] \<and>
            received h' = [(v, True)] \<and> Close_called v \<in> set (trace (world h')) \<and>
            (ContextCancelHandler \<in> set (routines h) \<longrightarrow>
               v = fst (Server_Close sv (env (world h))) \<and>
               env (world h') = snd (Server_Close sv (env (world h))) \<and>
               trace (world h') =
                 trace (world h) @ [Close_called v, Log Debug ''Stopped'' None None])))) \<and>
   (run (cache_step sv) cs (new_process (New ps) e) = Some g \<longrightarrow>
      \<not> crashed g \<and> sent (Wait (component g)) = [] \<and>
      (\<forall>r \<in> set (received g). r = (None, False)) \<and>
      (closed (Wait (component g)) \<longrightarrow>
         cache_step sv Receive g = Some (g\<lparr>received := received g @ [(None, False)]\<rparr>)) \<and>
      (ctx_Done g \<and> \<not> closed (Wait (component g)) \<longrightarrow>
         (\<exists>g'. run (cache_step sv) [Handler_Done] g = Some g' \<and>
            closed (Wait (component g')) \<and> sent (Wait (component g')) = [] \<and>
            trace (world g') = trace (world g) @ [Log Debug ''Stopped'' None None] \<and>
            cache_step sv Receive g' = Some (g'\<lparr>received := received g' @ [(None, False)]\<rparr>))))"
proof (intro conjI impI)
  assume r: "run (agent_step sv) bs (new_process (NewHTTPAgent addr) e) = Some h"
  from agent_reachable [OF r] have inv: "agent_inv h" and snd: "agent_sound h"
    and cli: "agent_close_inv h" by simp_all
  from snd show nc: "\<not> crashed h" by (simp add: agent_sound_def)
  from inv nc show "length (sent (Wait (component h))) \<le> 1"
    by (auto simp add: agent_inv_def Wait_def make_chan_def split: option.splits)
  from cli show "\<forall>v \<in> set (sent (Wait (component h))). Close_called v \<in> set (trace (world h))"
    by (simp add: agent_close_inv_def Wait_def)
  { assume cl: "closed (Wait (component h))"
    with inv nc show "\<exists>v n. sent (Wait (component h)) = [v] \<and>
        received h = (v, True) # replicate n (None, False)"
      by (auto simp add: agent_inv_def Wait_def make_chan_def split: option.splits)
    from cl nc show "agent_step sv Receive h = Some (h\<lparr>received := received h @ [(None, False)]\<rparr>)"
      by (simp add: agent_receive_closed Wait_def) }
  { assume "ctx_Done h \<and> \<not> closed (Wait (component h))"
    then have "ctx_Done h" "\<not> closed (waitCh (component h))" by (simp_all add: Wait_def)
    from agent_progress [OF inv nc this cli, of sv]
    show "\<exists>as h' v. set as \<subseteq> {Handler_Done, Receive} \<and>
            run (agent_step sv) as h = Some h' \<and>
            closed (Wait (component h')) \<and> sent (Wait (component h')) = [v] \<and>
            received h' = [(v, True)] \<and> Close_called v \<in> set (trace (world h')) \<and>
            (ContextCancelHandler \<in> set (routines h) \<longrightarrow>
               v = fst (Server_Close sv (env (world h))) \<and>
               env (world h') = snd (Server_Close sv (env (world h))) \<and>
               trace (world h') =
                 trace (world h) @ [Close_called v, Log Debug ''Stopped'' None None])"
      by (simp add: Wait_def) }
next
  assume r: "run (cache_step sv) cs (new_process (New ps) e) = Some g"
  from cache_reachable [OF r] have inv: "cache_inv g" .
  then show nc: "\<not> crashed g" by (simp add: cache_inv_def)
  from inv show "sent (Wait (component g)) = []"
    by (auto simp add: cache_inv_def Wait_def make_chan_def split: option.splits)
  have "only_closed (new_process (New ps) e)"
    by (simp add: only_closed_def new_process_def New_def make_chan_def)
  with r have "only_closed g"
    using run_preserves [of "cache_step sv" only_closed cs _ g] cache_step_only_closed by blast
  then show "\<forall>r \<in> set (received g). r = (None, False)" by (simp add: only_closed_def)
  { assume "closed (Wait (component g))"
    with nc show "cache_step sv Receive g = Some (g\<lparr>received := received g @ [(None, False)]\<rparr>)"
      by (simp add: cache_receive_closed Wait_def) }
  { assume "ctx_Done g \<and> \<not> closed (Wait (component g))"
    with cache_progress [OF inv, of sv]
    show "\<exists>g'. run (cache_step sv) [Handler_Done] g = Some g' \<and>
            closed (Wait (component g')) \<and> sent (Wait (component g')) = [] \<and>
            trace (world g') = trace (world g) @ [Log Debug ''Stopped'' None None] \<and>
            cache_step sv Receive g' = Some (g'\<lparr>received := received g' @ [(None, False)]\<rparr>)"
      by (simp add: Wait_def) }
qed

theorem C8_wait_after_cancel_witness:
  "\<exists>h k g.
     run (agent_step stub_found) [Start_called (Some (Ctx 1)), Server_Begins, Cancel (Ctx 1)]
       agent0 = Some h \<and>
     ctx_Done h \<and> \<not> closed (Wait (component h)) \<and> ContextCancelHandler \<in> set (routines h) \<and>
     (\<exists>as h'. set as \<subseteq> {Handler_Done, Receive} \<and>
        run (agent_step stub_found) as h = Some h' \<and>
        closed (Wait (component h')) \<and> sent (Wait (component h')) = [None] \<and>
        received h' = [(None, True)] \<and> env (world h') = 1 \<and>
        trace (world h') =
          trace (world h) @ [Close_called None, Log Debug ''Stopped'' None None]) \<and>
     run (agent_step stub_found)
       [Start_called (Some (Ctx 1)), Cancel (Ctx 1), Handler_Done, Receive, Receive]
       agent0 = Some k \<and>
     closed (Wait (component k)) \<and> sent (Wait (component k)) = [None] \<and>
     received k = [(None, True), (None, False)] \<and>
     Close_called None \<in> set (trace (world k)) \<and>
     run (cache_step stub_CD_fails) [Start_called (Some (Ctx 1)), Tick, Cancel (Ctx 1)]
       cache0 = Some g \<and>
     ctx_Done g \<and> \<not> closed (Wait (component g)) \<and>
     (\<exists>g'. run (cache_step stub_CD_fails) [Handler_Done] g = Some g' \<and>
        closed (Wait (component g')) \<and> sent (Wait (component g')) = [] \<and>
        cache_step stub_CD_fails Receive g' =
          Some (g'\<lparr>received := received g' @ [(None, False)]\<rparr>))"
proof -
  obtain h where h: "run (agent_step stub_found)
      [Start_called (Some (Ctx 1)), Server_Begins, Cancel (Ctx 1)] agent0 = Some h"
    and hd: "ctx_Done h" "\<not> closed (Wait (component h))"
      "ContextCancelHandler \<in> set (routines h)"
    and he: "Server_Close stub_found (env (world h)) = (None, 1)"
    by (simp add: agent_eval)
  obtain k where k: "run (agent_step stub_found)
      [Start_called (Some (Ctx 1)), Cancel (Ctx 1), Handler_Done, Receive, Receive] agent0 = Some k"
    and kd: "closed (Wait (component k))" "sent (Wait (component k)) = [None]"
      "received k = [(None, True), (None, False)]"
    by (simp add: agent_eval)
  obtain g where g: "run (cache_step stub_CD_fails)
      [Start_called (Some (Ctx 1)), Tick, Cancel (Ctx 1)] cache0 = Some g"
    and gd: "ctx_Done g" "\<not> closed (Wait (component g))"
    by (simp add: cache_eval)
  note t = C8_wait_after_cancel [where sv = stub_found and addr = "'':8080''" and e = 0
    and bs = "[Start_called (Some (Ctx 1)), Server_Begins, Cancel (Ctx 1)]" and h = h,
    THEN conjunct1]
  from t h hd he have a: "\<exists>as h'. set as \<subseteq> {Handler_Done, Receive} \<and>
        run (agent_step stub_found) as h = Some h' \<and>
        closed (Wait (component h')) \<and> sent (Wait (component h')) = [None] \<and>
        received h' = [(None, True)] \<and> env (world h') = 1 \<and>
        trace (world h') =
          trace (world h) @ [Close_called None, Log Debug ''Stopped'' None None]"
    unfolding agent0_def by fastforce
  note t2 = C8_wait_after_cancel [where sv = stub_found and addr = "'':8080''" and e = 0
    and bs = "[Start_called (Some (Ctx 1)), Cancel (Ctx 1), Handler_Done, Receive, Receive]"
    and h = k, THEN conjunct1]
  from t2 k kd have c: "Close_called None \<in> set (trace (world k))"
    unfolding agent0_def by fastforce
  note u = C8_wait_after_cancel [where sv = stub_CD_fails and ps = "[AB, CD, STALEUSD]" and e = 0
    and cs = "[Start_called (Some (Ctx 1)), Tick, Cancel (Ctx 1)]" and g = g, THEN conjunct2]
  from u g gd have b: "\<exists>g'. run (cache_step stub_CD_fails) [Handler_Done] g = Some g' \<and>
        closed (Wait (component g')) \<and> sent (Wait (component g')) = [] \<and>
        cache_step stub_CD_fails Receive g' =
          Some (g'\<lparr>received := received g' @ [(None, False)]\<rparr>)"
    unfolding cache0_def by blast
  from h hd a k kd c g gd b show ?thesis by blast
qed

text \<open>
  C8 as it is stated fails for the cache: after \<^verbatim>\<open>Start\<close>, the cancellation of the
  context, the cancel handler and one receive, the channel is closed and the receiver
  has got nil from the closed channel (\<^verbatim>\<open>ok = false\<close>), but no value has gone through
  the channel.
\<close>

theorem C8_cache_channel_yields_no_value:
  "map_option (closed \<circ> Wait \<circ> component)
     (run (cache_step stub_CD_fails)
        [Start_called (Some (Ctx 1)), Cancel (Ctx 1), Handler_Done, Receive] cache0) = Some True \<and>
   map_option (sent \<circ> Wait \<circ> component)
     (run (cache_step stub_CD_fails)
        [Start_called (Some (Ctx 1)), Cancel (Ctx 1), Handler_Done, Receive] cache0) = Some [] \<and>
   map_option received
     (run (cache_step stub_CD_fails)
        [Start_called (Some (Ctx 1)), Cancel (Ctx 1), Handler_Done, Receive] cache0) =
     Some [(None, False)]"
  by (simp add: cache_eval)

end
